theory Spec2Isabelle
  imports Main
begin

section \<open>Values, schema metadata and the store interface\<close>

text \<open>
  JavaScript values as far as the mapping layer looks at them. An object is the list of
  its own properties in enumeration order, with distinct names (JavaScript enumerates
  names that look like array indices first; the list is taken as it is given). \<open>JNum\<close>
  is a number whose value is an integer; a number written with a fraction or an exponent
  is kept as \<open>JFloat\<close> with its numeral, since floating point is not evaluated here, and
  two of them are compared by their numerals. A string is the list of the bytes of its
  UTF-8 form.
\<close>

datatype jsval =
    JUndefined
  | JNull
  | JBool bool
  | JNum int
  | JFloat string
  | JStr string
  | JArr "jsval list"
  | JObj "(string \<times> jsval) list"

type_synonym jsobj = "(string \<times> jsval) list"

text \<open>\<open>obj[name]\<close>: reading a property that is not there gives \<open>undefined\<close>.\<close>

definition get_prop :: "jsobj \<Rightarrow> string \<Rightarrow> jsval" where
  "get_prop obj name = (case map_of obj name of None \<Rightarrow> JUndefined | Some v \<Rightarrow> v)"

text \<open>\<open>Object.keys(obj)\<close>.\<close>

definition object_keys :: "jsobj \<Rightarrow> string list" where
  "object_keys obj = map fst obj"

text \<open>
  \<open>a === b\<close>. Primitives compare by value. Objects and arrays compare by reference,
  which this value model does not track: two of them are taken to be different objects.
\<close>

fun strict_eq :: "jsval \<Rightarrow> jsval \<Rightarrow> bool" where
  "strict_eq JUndefined JUndefined = True"
| "strict_eq JNull JNull = True"
| "strict_eq (JBool a) (JBool b) = (a = b)"
| "strict_eq (JNum a) (JNum b) = (a = b)"
| "strict_eq (JFloat a) (JFloat b) = (a = b)"
| "strict_eq (JStr a) (JStr b) = (a = b)"
| "strict_eq _ _ = False"

text \<open>\<open>value !== undefined && value !== null\<close>.\<close>

fun has_value :: "jsval \<Rightarrow> bool" where
  "has_value JUndefined = False"
| "has_value JNull = False"
| "has_value _ = True"

text \<open>decorators/metadata-storage.ts: the fields of the metadata the operations read.\<close>

record ColumnMetadata =
  propertyName :: string
  isPrimary :: bool

record EntityMetadata =
  tableName :: string
  columns :: "ColumnMetadata list"
  primaryColumns :: "ColumnMetadata list"

text \<open>
  Values of the store's SDK: the two range sentinels, a 64-bit integer made by
  \<open>Tablestore.Long.fromNumber\<close> (kept with the number it was made from: the reduction
  of a number beyond 64 bits is not applied), or a plain JavaScript value. A primary key
  is an array of one-property objects.
\<close>

datatype tsval = INF_MIN | INF_MAX | Long int | Plain jsval

type_synonym PrimaryKeyInput = "(string \<times> tsval) list"

datatype ComparatorType =
  EQUAL | NOT_EQUAL | GREATER_THAN | GREATER_EQUAL | LESS_THAN | LESS_EQUAL

datatype LogicalOperator = NOT | AND | OR

datatype ColumnCondition =
    SingleColumnCondition string tsval ComparatorType bool bool
  | CompositeCondition LogicalOperator "ColumnCondition list"

datatype RowExistenceExpectation = IGNORE | EXPECT_EXIST | EXPECT_NOT_EXIST

datatype Condition = Condition RowExistenceExpectation "ColumnCondition option"

record Row =
  row_primaryKey :: "PrimaryKeyInput option"
  row_attributes :: "(string \<times> tsval) list"

datatype Direction = FORWARD | BACKWARD

record GetRowParams =
  gr_tableName :: string
  gr_primaryKey :: PrimaryKeyInput
  gr_columnsToGet :: "string list option"
  gr_columnFilter :: "ColumnCondition option"
  gr_transactionId :: "string option"

record GetRangeParams =
  rg_tableName :: string
  rg_inclusiveStartPrimaryKey :: PrimaryKeyInput
  rg_exclusiveEndPrimaryKey :: PrimaryKeyInput
  rg_limit :: int
  rg_direction :: Direction
  rg_columnsToGet :: "string list option"
  rg_columnFilter :: "ColumnCondition option"

record PutRowParams =
  pr_tableName :: string
  pr_condition :: Condition
  pr_primaryKey :: PrimaryKeyInput
  pr_attributeColumns :: "(string \<times> tsval) list"
  pr_transactionId :: "string option"

datatype UpdateOp = PUT "(string \<times> tsval) list" | DELETE_ALL "string list"

record UpdateRowParams =
  ur_tableName :: string
  ur_condition :: Condition
  ur_primaryKey :: PrimaryKeyInput
  ur_updateOfAttributeColumns :: "UpdateOp list"
  ur_transactionId :: "string option"

record DeleteRowParams =
  dr_tableName :: string
  dr_condition :: Condition
  dr_primaryKey :: PrimaryKeyInput
  dr_transactionId :: "string option"

text \<open>
  A batch operation of transaction.ts: the table it names and the SDK request, which the
  transaction passes on without reading (\<open>request: any\<close>).
\<close>

record BatchWriteOperation =
  bw_tableName :: string
  bw_request :: jsval

record BatchWriteRowParams =
  bwr_tables :: "(string \<times> jsval list) list"
  bwr_transactionId :: string

text \<open>The calls that reach the store client, in the order they are issued.\<close>

datatype request =
    GetRow GetRowParams
  | GetRange GetRangeParams
  | PutRow PutRowParams
  | UpdateRow UpdateRowParams
  | DeleteRow DeleteRowParams
  | BatchWriteRow BatchWriteRowParams
  | CommitTransaction string
  | AbortTransaction string

text \<open>
  Every \<open>throw\<close> of the modelled code, one constructor for each site, and \<open>StoreError\<close>
  for whatever the store client rejects a call with (its \<open>code\<close> and \<open>message\<close>).
\<close>

datatype error =
    EntityNotRegistered string
  | TransactionTimedOut
  | TransactionEnded
  | NoPrimaryColumn
  | PartitionKeyMismatch jsval jsval
  | BatchTablesDiffer
  | FieldNotInEntity string
  | FieldValueMissing string
  | EmptyAnd
  | EmptyOr
  | PrimaryKeyMissing string
  | EncodeCursorFailed
  | DecodeCursorFailed
  | StoreError string string

section \<open>transaction.ts\<close>

datatype TransactionStatus = ACTIVE | COMMITTED | ABORTED | TIMEOUT

record Transaction =
  tx_tableName :: string
  partitionKey :: "(string \<times> jsval) list"
  transactionId :: string
  startTime :: int
  timeout :: int
  status :: TransactionStatus

text \<open>
  The constructor: \<open>startTime = Date.now()\<close>, \<open>timeout = options?.timeout || 60000\<close>
  (an absent or zero timeout is 60 seconds), status ACTIVE.
\<close>

definition new_Transaction ::
  "string \<Rightarrow> (string \<times> jsval) list \<Rightarrow> string \<Rightarrow> int option \<Rightarrow> int \<Rightarrow> Transaction" where
  "new_Transaction tbl pk tid timeout_opt now =
     \<lparr> tx_tableName = tbl, partitionKey = pk, transactionId = tid, startTime = now,
       timeout = (case timeout_opt of None \<Rightarrow> 60000 | Some t \<Rightarrow> if t = 0 then 60000 else t),
       status = ACTIVE \<rparr>"

text \<open>
  The collaborators of a transaction. The entity manager's codec is taken as given:
  metadata lookup (which throws for an unregistered class), special columns, and the
  conversions to the store's format. \<open>processSpecialColumnsOnUpdate\<close> may itself read
  the store (the version column), so it also reports the calls it made.
\<close>

record EntityManager =
  getEntityMetadata :: "string \<Rightarrow> error + EntityMetadata"
  processSpecialColumnsOnInsert :: "jsobj \<Rightarrow> EntityMetadata \<Rightarrow> jsobj"
  convertEntityToTablestore ::
    "jsobj \<Rightarrow> EntityMetadata \<Rightarrow> PrimaryKeyInput \<times> (string \<times> tsval) list"
  processSpecialColumnsOnUpdate ::
    "jsobj \<Rightarrow> EntityMetadata \<Rightarrow> jsobj \<Rightarrow> (error + jsobj) \<times> request list"
  convertPrimaryKeysToTablestore :: "jsobj \<Rightarrow> EntityMetadata \<Rightarrow> error + PrimaryKeyInput"
  convertPartialEntityToTablestoreUpdate :: "jsobj \<Rightarrow> EntityMetadata \<Rightarrow> UpdateOp list"
  convertTablestoreToEntity :: "Row \<Rightarrow> string \<Rightarrow> EntityMetadata \<Rightarrow> jsobj"
  isRowNotFoundError :: "error \<Rightarrow> bool"

text \<open>The store client: for each call, the error it throws or the response it gives.\<close>

record Client =
  putRow :: "PutRowParams \<Rightarrow> error + unit"
  updateRow :: "UpdateRowParams \<Rightarrow> error + unit"
  deleteRow :: "DeleteRowParams \<Rightarrow> error + unit"
  getRow :: "GetRowParams \<Rightarrow> error + Row option"
  getRange :: "GetRangeParams \<Rightarrow> error + Row list \<times> PrimaryKeyInput option"
  batchWriteRow :: "BatchWriteRowParams \<Rightarrow> error + unit"
  commitTransaction :: "string \<Rightarrow> error + unit"
  abortTransaction :: "string \<Rightarrow> error + unit"

text \<open>
  An operation gives back what it returned or threw, the transaction afterwards, and the
  calls it issued to the store.
\<close>

type_synonym 'a tx_result = "(error + 'a) \<times> Transaction \<times> request list"

text \<open>\<open>getStatus()\<close> reads the field and checks nothing.\<close>

definition getStatus :: "Transaction \<Rightarrow> TransactionStatus" where
  "getStatus tx = status tx"

text \<open>\<open>isActive()\<close>, with the value of \<open>Date.now()\<close> as \<open>now\<close>.\<close>

definition isActive :: "Transaction \<Rightarrow> int \<Rightarrow> bool \<times> Transaction" where
  "isActive tx now =
     (if status tx \<noteq> ACTIVE then (False, tx)
      else if now - startTime tx > timeout tx then (False, tx\<lparr>status := TIMEOUT\<rparr>)
      else (True, tx))"

definition ensureActive :: "Transaction \<Rightarrow> int \<Rightarrow> (error + unit) \<times> Transaction" where
  "ensureActive tx now =
     (case isActive tx now of
        (active, tx') \<Rightarrow>
          if \<not> active
          then (Inl (if status tx' = TIMEOUT then TransactionTimedOut else TransactionEnded), tx')
          else (Inr (), tx'))"

text \<open>\<open>this.partitionKey[0]?.[name]\<close>.\<close>

definition transactionPartitionValue :: "Transaction \<Rightarrow> string \<Rightarrow> jsval" where
  "transactionPartitionValue tx name =
     (case partitionKey tx of
        [] \<Rightarrow> JUndefined
      | (k, v) # _ \<Rightarrow> if k = name then v else JUndefined)"

definition validatePartitionKey :: "Transaction \<Rightarrow> jsobj \<Rightarrow> EntityMetadata \<Rightarrow> error + unit" where
  "validatePartitionKey tx entity metadata =
     (case primaryColumns metadata of
        [] \<Rightarrow> Inl NoPrimaryColumn
      | firstPrimaryColumn # _ \<Rightarrow>
          (let entityPartitionValue = get_prop entity (propertyName firstPrimaryColumn);
               txPartitionValue = transactionPartitionValue tx (propertyName firstPrimaryColumn)
           in if \<not> strict_eq entityPartitionValue txPartitionValue
              then Inl (PartitionKeyMismatch entityPartitionValue txPartitionValue)
              else Inr ()))"

text \<open>\<open>save(entity, options)\<close>; \<open>cls\<close> is \<open>entity.constructor\<close>.\<close>

definition save ::
  "EntityManager \<Rightarrow> Client \<Rightarrow> Transaction \<Rightarrow> int \<Rightarrow> string \<Rightarrow> jsobj \<Rightarrow> Condition option
     \<Rightarrow> jsobj tx_result" where
  "save em client tx now cls entity opt_condition =
     (case ensureActive tx now of
        (Inl e, tx') \<Rightarrow> (Inl e, tx', [])
      | (Inr _, tx') \<Rightarrow>
     (case getEntityMetadata em cls of
        Inl e \<Rightarrow> (Inl e, tx', [])
      | Inr metadata \<Rightarrow>
     (case validatePartitionKey tx' entity metadata of
        Inl e \<Rightarrow> (Inl e, tx', [])
      | Inr _ \<Rightarrow>
     (let entity' = processSpecialColumnsOnInsert em entity metadata;
          (primaryKey, attributeColumns) = convertEntityToTablestore em entity' metadata;
          condition = (case opt_condition of Some c \<Rightarrow> c | None \<Rightarrow> Condition IGNORE None);
          params = \<lparr> pr_tableName = tableName metadata, pr_condition = condition,
                     pr_primaryKey = primaryKey, pr_attributeColumns = attributeColumns,
                     pr_transactionId = Some (transactionId tx') \<rparr>
      in case putRow client params of
           Inl e \<Rightarrow> (Inl e, tx', [PutRow params])
         | Inr _ \<Rightarrow> (Inr entity', tx', [PutRow params])))))"

text \<open>\<open>update(entityClass, primaryKeys, partialEntity)\<close>.\<close>

definition update ::
  "EntityManager \<Rightarrow> Client \<Rightarrow> Transaction \<Rightarrow> int \<Rightarrow> string \<Rightarrow> jsobj \<Rightarrow> jsobj
     \<Rightarrow> unit tx_result" where
  "update em client tx now cls primaryKeys partialEntity =
     (case ensureActive tx now of
        (Inl e, tx') \<Rightarrow> (Inl e, tx', [])
      | (Inr _, tx') \<Rightarrow>
     (case getEntityMetadata em cls of
        Inl e \<Rightarrow> (Inl e, tx', [])
      | Inr metadata \<Rightarrow>
     (case validatePartitionKey tx' primaryKeys metadata of
        Inl e \<Rightarrow> (Inl e, tx', [])
      | Inr _ \<Rightarrow>
     (case processSpecialColumnsOnUpdate em partialEntity metadata primaryKeys of
        (Inl e, calls) \<Rightarrow> (Inl e, tx', calls)
      | (Inr partialEntity', calls) \<Rightarrow>
     (case convertPrimaryKeysToTablestore em primaryKeys metadata of
        Inl e \<Rightarrow> (Inl e, tx', calls)
      | Inr tablestorePrimaryKey \<Rightarrow>
     (let params = \<lparr> ur_tableName = tableName metadata,
                     ur_condition = Condition EXPECT_EXIST None,
                     ur_primaryKey = tablestorePrimaryKey,
                     ur_updateOfAttributeColumns =
                       convertPartialEntityToTablestoreUpdate em partialEntity' metadata,
                     ur_transactionId = Some (transactionId tx') \<rparr>
      in case updateRow client params of
           Inl e \<Rightarrow> (Inl e, tx', calls @ [UpdateRow params])
         | Inr _ \<Rightarrow> (Inr (), tx', calls @ [UpdateRow params])))))))"

text \<open>\<open>delete(entityClass, primaryKeys, options)\<close>.\<close>

definition delete ::
  "EntityManager \<Rightarrow> Client \<Rightarrow> Transaction \<Rightarrow> int \<Rightarrow> string \<Rightarrow> jsobj \<Rightarrow> Condition option
     \<Rightarrow> unit tx_result" where
  "delete em client tx now cls primaryKeys opt_condition =
     (case ensureActive tx now of
        (Inl e, tx') \<Rightarrow> (Inl e, tx', [])
      | (Inr _, tx') \<Rightarrow>
     (case getEntityMetadata em cls of
        Inl e \<Rightarrow> (Inl e, tx', [])
      | Inr metadata \<Rightarrow>
     (case validatePartitionKey tx' primaryKeys metadata of
        Inl e \<Rightarrow> (Inl e, tx', [])
      | Inr _ \<Rightarrow>
     (case convertPrimaryKeysToTablestore em primaryKeys metadata of
        Inl e \<Rightarrow> (Inl e, tx', [])
      | Inr tablestorePrimaryKey \<Rightarrow>
     (let condition = (case opt_condition of Some c \<Rightarrow> c | None \<Rightarrow> Condition EXPECT_EXIST None);
          params = \<lparr> dr_tableName = tableName metadata, dr_condition = condition,
                     dr_primaryKey = tablestorePrimaryKey,
                     dr_transactionId = Some (transactionId tx') \<rparr>
      in case deleteRow client params of
           Inl e \<Rightarrow> (Inl e, tx', [DeleteRow params])
         | Inr _ \<Rightarrow> (Inr (), tx', [DeleteRow params]))))))"

text \<open>
  \<open>findOne(entityClass, primaryKeys)\<close>: the key is converted and the row is read; a
  missing row, or a row-not-found error of the store, gives \<open>null\<close> (\<open>None\<close>).
\<close>

definition findOne ::
  "EntityManager \<Rightarrow> Client \<Rightarrow> Transaction \<Rightarrow> int \<Rightarrow> string \<Rightarrow> jsobj
     \<Rightarrow> jsobj option tx_result" where
  "findOne em client tx now cls primaryKeys =
     (case ensureActive tx now of
        (Inl e, tx') \<Rightarrow> (Inl e, tx', [])
      | (Inr _, tx') \<Rightarrow>
     (case getEntityMetadata em cls of
        Inl e \<Rightarrow> (Inl e, tx', [])
      | Inr metadata \<Rightarrow>
     (case convertPrimaryKeysToTablestore em primaryKeys metadata of
        Inl e \<Rightarrow> (Inl e, tx', [])
      | Inr tablestorePrimaryKey \<Rightarrow>
     (let params = \<lparr> gr_tableName = tableName metadata, gr_primaryKey = tablestorePrimaryKey,
                     gr_columnsToGet = None, gr_columnFilter = None,
                     gr_transactionId = Some (transactionId tx') \<rparr>
      in case getRow client params of
           Inl e \<Rightarrow>
             if isRowNotFoundError em e then (Inr None, tx', [GetRow params])
             else (Inl e, tx', [GetRow params])
         | Inr None \<Rightarrow> (Inr None, tx', [GetRow params])
         | Inr (Some row) \<Rightarrow>
             if row_primaryKey row = None then (Inr None, tx', [GetRow params])
             else (Inr (Some (convertTablestoreToEntity em row cls metadata)), tx',
                   [GetRow params])))))"

text \<open>
  \<open>batchWrite(operations)\<close>: nothing to do for an empty list; otherwise every operation
  must name the table of the first one, and the requests go out in one call.
\<close>

definition batchWrite ::
  "Client \<Rightarrow> Transaction \<Rightarrow> int \<Rightarrow> BatchWriteOperation list \<Rightarrow> unit tx_result" where
  "batchWrite client tx now operations =
     (case ensureActive tx now of
        (Inl e, tx') \<Rightarrow> (Inl e, tx', [])
      | (Inr _, tx') \<Rightarrow>
     (case operations of
        [] \<Rightarrow> (Inr (), tx', [])
      | firstOp # _ \<Rightarrow>
          if list_ex (\<lambda>op. bw_tableName op \<noteq> bw_tableName firstOp) operations
          then (Inl BatchTablesDiffer, tx', [])
          else
            (let params = \<lparr> bwr_tables = [(bw_tableName firstOp, map bw_request operations)],
                            bwr_transactionId = transactionId tx' \<rparr>
             in case batchWriteRow client params of
                  Inl e \<Rightarrow> (Inl e, tx', [BatchWriteRow params])
                | Inr _ \<Rightarrow> (Inr (), tx', [BatchWriteRow params]))))"

text \<open>\<open>commit()\<close>: a failed store call leaves the transaction ABORTED and is thrown again.\<close>

definition commit :: "Client \<Rightarrow> Transaction \<Rightarrow> int \<Rightarrow> unit tx_result" where
  "commit client tx now =
     (case ensureActive tx now of
        (Inl e, tx') \<Rightarrow> (Inl e, tx', [])
      | (Inr _, tx') \<Rightarrow>
          (case commitTransaction client (transactionId tx') of
             Inr _ \<Rightarrow> (Inr (), tx'\<lparr>status := COMMITTED\<rparr>, [CommitTransaction (transactionId tx')])
           | Inl e \<Rightarrow> (Inl e, tx'\<lparr>status := ABORTED\<rparr>, [CommitTransaction (transactionId tx')])))"

text \<open>
  \<open>rollback()\<close>: returns at once unless the status is ACTIVE; otherwise the store's abort
  runs inside \<open>try ... finally\<close>, so the status becomes ABORTED and an error of the
  abort call still reaches the caller.
\<close>

definition rollback :: "Client \<Rightarrow> Transaction \<Rightarrow> unit tx_result" where
  "rollback client tx =
     (if status tx \<noteq> ACTIVE then (Inr (), tx, [])
      else
        (case abortTransaction client (transactionId tx) of
           Inr _ \<Rightarrow> (Inr (), tx\<lparr>status := ABORTED\<rparr>, [AbortTransaction (transactionId tx)])
         | Inl e \<Rightarrow> (Inl e, tx\<lparr>status := ABORTED\<rparr>, [AbortTransaction (transactionId tx)])))"

text \<open>The errors \<open>ensureActive\<close> throws: the transaction has timed out or has ended.\<close>

fun is_transaction_state_error :: "error \<Rightarrow> bool" where
  "is_transaction_state_error TransactionTimedOut = True"
| "is_transaction_state_error TransactionEnded = True"
| "is_transaction_state_error _ = False"

section \<open>entity-manager.ts: primary keys\<close>

text \<open>
  The loops of the entity manager over the primary-key columns. The conversion of one
  value (\<open>convertValueToTablestore\<close>, which depends on the column's declared type and
  transformer) is the parameter \<open>conv\<close>.
\<close>

type_synonym value_codec = "jsval \<Rightarrow> ColumnMetadata \<Rightarrow> tsval"

text \<open>
  \<open>convertPrimaryKeysToTablestore(primaryKeys, metadata, allowPartial)\<close>: a column
  without a value throws, or with \<open>allowPartial\<close> ends the key there (\<open>break\<close>).
\<close>

fun em_convertPrimaryKeysToTablestore_loop ::
  "value_codec \<Rightarrow> jsobj \<Rightarrow> bool \<Rightarrow> ColumnMetadata list \<Rightarrow> error + PrimaryKeyInput" where
  "em_convertPrimaryKeysToTablestore_loop conv primaryKeys allowPartial [] = Inr []"
| "em_convertPrimaryKeysToTablestore_loop conv primaryKeys allowPartial (column # rest) =
     (let v = get_prop primaryKeys (propertyName column)
      in if has_value v
         then (case em_convertPrimaryKeysToTablestore_loop conv primaryKeys allowPartial rest of
                 Inl e \<Rightarrow> Inl e
               | Inr ks \<Rightarrow> Inr ((propertyName column, conv v column) # ks))
         else if \<not> allowPartial then Inl (PrimaryKeyMissing (propertyName column))
         else Inr [])"

definition em_convertPrimaryKeysToTablestore ::
  "value_codec \<Rightarrow> jsobj \<Rightarrow> EntityMetadata \<Rightarrow> bool \<Rightarrow> error + PrimaryKeyInput" where
  "em_convertPrimaryKeysToTablestore conv primaryKeys metadata allowPartial =
     em_convertPrimaryKeysToTablestore_loop conv primaryKeys allowPartial (primaryColumns metadata)"

text \<open>\<open>convertEntityToTablestore(entity, metadata)\<close>: columns without a value are left out.\<close>

definition em_convertEntityToTablestore ::
  "value_codec \<Rightarrow> jsobj \<Rightarrow> EntityMetadata \<Rightarrow> PrimaryKeyInput \<times> (string \<times> tsval) list" where
  "em_convertEntityToTablestore conv entity metadata =
     (map (\<lambda>column. (propertyName column, conv (get_prop entity (propertyName column)) column))
        (filter (\<lambda>column. has_value (get_prop entity (propertyName column)))
           (primaryColumns metadata)),
      map (\<lambda>column. (propertyName column, conv (get_prop entity (propertyName column)) column))
        (filter (\<lambda>column. \<not> isPrimary column \<and> has_value (get_prop entity (propertyName column)))
           (columns metadata)))"

text \<open>
  \<open>autoCompletePartialPrimaryKey(partialKeys, metadata, isStart)\<close> of the entity manager:
  a column with a value keeps it, a column without one gets INF_MIN at the start and
  INF_MAX at the end.
\<close>

definition em_autoCompletePartialPrimaryKey ::
  "value_codec \<Rightarrow> jsobj \<Rightarrow> EntityMetadata \<Rightarrow> bool \<Rightarrow> PrimaryKeyInput" where
  "em_autoCompletePartialPrimaryKey conv partialKeys metadata isStart =
     map (\<lambda>column.
            (let v = get_prop partialKeys (propertyName column)
             in if has_value v then (propertyName column, conv v column)
                else if isStart then (propertyName column, INF_MIN)
                else (propertyName column, INF_MAX)))
       (primaryColumns metadata)"

text \<open>
  \<open>isCompletePrimaryKey(primaryKeys, metadata)\<close>: false as soon as a primary-key column
  has the value \<open>undefined\<close> or \<open>null\<close>, true when none has.
\<close>

definition em_isCompletePrimaryKey :: "jsobj \<Rightarrow> EntityMetadata \<Rightarrow> bool" where
  "em_isCompletePrimaryKey primaryKeys metadata =
     list_all (\<lambda>column. has_value (get_prop primaryKeys (propertyName column)))
       (primaryColumns metadata)"

text \<open>
  \<open>findOne(entityClass, primaryKeys)\<close> of the entity manager. A complete key is read
  with \<open>getRow\<close>. Any other key is completed into a start and an end boundary, and the
  first row of a forward range scan with limit 1 is returned. No row, and a
  row-not-found error of the store, give \<open>null\<close>; any other error is thrown again. The
  result comes with the calls issued to the store.
\<close>

definition em_findOne ::
  "EntityManager \<Rightarrow> value_codec \<Rightarrow> Client \<Rightarrow> string \<Rightarrow> jsobj
     \<Rightarrow> (error + jsobj option) \<times> request list" where
  "em_findOne em conv client cls primaryKeys =
     (case getEntityMetadata em cls of
        Inl e \<Rightarrow> (Inl e, [])
      | Inr metadata \<Rightarrow>
          if em_isCompletePrimaryKey primaryKeys metadata
          then (case em_convertPrimaryKeysToTablestore conv primaryKeys metadata False of
                  Inl e \<Rightarrow> (Inl e, [])
                | Inr tablestorePrimaryKey \<Rightarrow>
                    (let params = \<lparr> gr_tableName = tableName metadata,
                                    gr_primaryKey = tablestorePrimaryKey,
                                    gr_columnsToGet = None, gr_columnFilter = None,
                                    gr_transactionId = None \<rparr>
                     in case getRow client params of
                          Inl e \<Rightarrow>
                            if isRowNotFoundError em e then (Inr None, [GetRow params])
                            else (Inl e, [GetRow params])
                        | Inr None \<Rightarrow> (Inr None, [GetRow params])
                        | Inr (Some row) \<Rightarrow>
                            if row_primaryKey row = None then (Inr None, [GetRow params])
                            else (Inr (Some (convertTablestoreToEntity em row cls metadata)),
                                  [GetRow params])))
          else (let params =
                      \<lparr> rg_tableName = tableName metadata,
                        rg_inclusiveStartPrimaryKey =
                          em_autoCompletePartialPrimaryKey conv primaryKeys metadata True,
                        rg_exclusiveEndPrimaryKey =
                          em_autoCompletePartialPrimaryKey conv primaryKeys metadata False,
                        rg_limit = 1, rg_direction = FORWARD,
                        rg_columnsToGet = None, rg_columnFilter = None \<rparr>
                in case getRange client params of
                     Inl e \<Rightarrow>
                       if isRowNotFoundError em e then (Inr None, [GetRange params])
                       else (Inl e, [GetRange params])
                   | Inr (rows, next_key) \<Rightarrow>
                       (case rows of
                          [] \<Rightarrow> (Inr None, [GetRange params])
                        | row # _ \<Rightarrow>
                            (Inr (Some (convertTablestoreToEntity em row cls metadata)),
                             [GetRange params]))))"

section \<open>query-builder.ts\<close>

datatype OrderDirection = ASC | DESC

text \<open>
  The state of a QueryBuilder. \<open>_orderBy\<close> is an object from column names to
  directions, kept as the list of its properties in the order \<open>Object.keys\<close> gives them.
\<close>

record QueryBuilder =
  qb_entityClass :: string
  qb_metadata :: EntityMetadata
  qb_select :: "string list"
  qb_where :: jsobj
  qb_orderBy :: "(string \<times> OrderDirection) list"
  qb_limit :: "int option"
  qb_startPrimaryKey :: "PrimaryKeyInput option"
  qb_endPrimaryKey :: "PrimaryKeyInput option"
  qb_columnCondition :: "ColumnCondition option"

record QueryResult =
  entities :: "jsobj list"
  nextStartPrimaryKey :: "PrimaryKeyInput option"

text \<open>The constructor throws when the class has no registered metadata.\<close>

definition new_QueryBuilder :: "EntityManager \<Rightarrow> string \<Rightarrow> error + QueryBuilder" where
  "new_QueryBuilder em cls =
     (case getEntityMetadata em cls of
        Inl e \<Rightarrow> Inl e
      | Inr md \<Rightarrow>
          Inr \<lparr> qb_entityClass = cls, qb_metadata = md, qb_select = [], qb_where = [],
                qb_orderBy = [], qb_limit = None, qb_startPrimaryKey = None,
                qb_endPrimaryKey = None, qb_columnCondition = None \<rparr>)"

text \<open>\<open>where(condition)\<close> with an object: the object replaces the earlier one.\<close>

definition where_object :: "jsobj \<Rightarrow> QueryBuilder \<Rightarrow> QueryBuilder" where
  "where_object condition qb = qb\<lparr>qb_where := condition\<rparr>"

text \<open>\<open>where(condition, parameters)\<close> with a string.\<close>

definition where_string :: "string \<Rightarrow> jsval \<Rightarrow> QueryBuilder \<Rightarrow> QueryBuilder" where
  "where_string condition parameters qb =
     qb\<lparr>qb_where := [(''condition'', JStr condition), (''parameters'', parameters)]\<rparr>"

text \<open>
  \<open>orderBy(columnOrDirection, direction?)\<close>: the strings \<open>ASC\<close> and \<open>DESC\<close> order by
  the first primary-key column (and change nothing when there is none); any other
  string is a column, ordered \<open>direction || 'ASC'\<close>.
\<close>

definition orderBy :: "string \<Rightarrow> OrderDirection option \<Rightarrow> QueryBuilder \<Rightarrow> QueryBuilder" where
  "orderBy columnOrDirection direction qb =
     (if columnOrDirection = ''ASC'' \<or> columnOrDirection = ''DESC''
      then (case primaryColumns (qb_metadata qb) of
              [] \<Rightarrow> qb
            | firstPrimaryColumn # _ \<Rightarrow>
                qb\<lparr>qb_orderBy :=
                     [(propertyName firstPrimaryColumn,
                       if columnOrDirection = ''ASC'' then ASC else DESC)]\<rparr>)
      else qb\<lparr>qb_orderBy :=
                [(columnOrDirection, case direction of None \<Rightarrow> ASC | Some d \<Rightarrow> d)]\<rparr>)"

definition limit :: "int \<Rightarrow> QueryBuilder \<Rightarrow> QueryBuilder" where
  "limit n qb = qb\<lparr>qb_limit := Some n\<rparr>"

definition take_limit :: "int \<Rightarrow> QueryBuilder \<Rightarrow> QueryBuilder" where
  "take_limit n qb = limit n qb"

text \<open>
  \<open>filter(callback)\<close>: the callback builds the condition from a filter factory for the
  entity's metadata, and what it throws leaves the builder.
\<close>

definition filter_with ::
  "(EntityMetadata \<Rightarrow> error + ColumnCondition) \<Rightarrow> QueryBuilder \<Rightarrow> error + QueryBuilder" where
  "filter_with callback qb =
     (case callback (qb_metadata qb) of
        Inl e \<Rightarrow> Inl e
      | Inr c \<Rightarrow> Inr (qb\<lparr>qb_columnCondition := Some c\<rparr>))"

text \<open>
  \<open>getOrderDirection()\<close> and \<open>getDirection()\<close> read the first property of \<open>_orderBy\<close>:
  \<open>firstOrderKey && this._orderBy[firstOrderKey] === 'DESC'\<close>, where an empty name is
  falsy.
\<close>

definition getOrderDirection :: "QueryBuilder \<Rightarrow> OrderDirection" where
  "getOrderDirection qb =
     (case qb_orderBy qb of
        [] \<Rightarrow> ASC
      | (firstOrderKey, d) # _ \<Rightarrow> if firstOrderKey \<noteq> [] \<and> d = DESC then DESC else ASC)"

definition getDirection :: "QueryBuilder \<Rightarrow> Direction" where
  "getDirection qb =
     (case qb_orderBy qb of
        [] \<Rightarrow> FORWARD
      | (firstOrderKey, d) # _ \<Rightarrow>
          if firstOrderKey \<noteq> [] \<and> d = DESC then BACKWARD else FORWARD)"

text \<open>
  The builder's own \<open>convertValueToTablestore\<close>: an integer number becomes a Long, any
  other value is passed as it is.
\<close>

fun qb_convertValueToTablestore :: "jsval \<Rightarrow> ColumnMetadata \<Rightarrow> tsval" where
  "qb_convertValueToTablestore (JNum i) column = Long i"
| "qb_convertValueToTablestore v column = Plain v"

text \<open>The builder's \<open>convertPrimaryKeysToTablestore\<close>: columns without a value are skipped.\<close>

definition qb_convertPrimaryKeysToTablestore :: "QueryBuilder \<Rightarrow> jsobj \<Rightarrow> PrimaryKeyInput" where
  "qb_convertPrimaryKeysToTablestore qb primaryKeys =
     map (\<lambda>column. (propertyName column,
                     qb_convertValueToTablestore (get_prop primaryKeys (propertyName column)) column))
       (filter (\<lambda>column. has_value (get_prop primaryKeys (propertyName column)))
          (primaryColumns (qb_metadata qb)))"

text \<open>
  \<open>autoCompletePartialPrimaryKey(partialKeys, isStart, direction)\<close>: the loop over the
  primary-key columns. It carries the flag \<open>foundPartialKey\<close>, which the source sets at
  a column without a value and never reads; the result is the key alone.
\<close>

fun autoCompletePartialPrimaryKey_loop ::
  "jsobj \<Rightarrow> bool \<Rightarrow> OrderDirection \<Rightarrow> ColumnMetadata list \<Rightarrow> bool
     \<Rightarrow> PrimaryKeyInput \<times> bool" where
  "autoCompletePartialPrimaryKey_loop partialKeys isStart direction [] foundPartialKey =
     ([], foundPartialKey)"
| "autoCompletePartialPrimaryKey_loop partialKeys isStart direction (column # rest) foundPartialKey =
     (let v = get_prop partialKeys (propertyName column)
      in if has_value v
         then (case autoCompletePartialPrimaryKey_loop partialKeys isStart direction rest
                      foundPartialKey of
                 (ks, found) \<Rightarrow>
                   ((propertyName column, qb_convertValueToTablestore v column) # ks, found))
         else (case autoCompletePartialPrimaryKey_loop partialKeys isStart direction rest True of
                 (ks, found) \<Rightarrow>
                   (if isStart
                    then (if direction = ASC then (propertyName column, INF_MIN) # ks
                          else (propertyName column, INF_MAX) # ks)
                    else (if direction = ASC then (propertyName column, INF_MAX) # ks
                          else (propertyName column, INF_MIN) # ks),
                    found)))"

definition autoCompletePartialPrimaryKey ::
  "QueryBuilder \<Rightarrow> jsobj \<Rightarrow> bool \<Rightarrow> OrderDirection \<Rightarrow> PrimaryKeyInput" where
  "autoCompletePartialPrimaryKey qb partialKeys isStart direction =
     fst (autoCompletePartialPrimaryKey_loop partialKeys isStart direction
            (primaryColumns (qb_metadata qb)) False)"

definition startWith :: "jsobj \<Rightarrow> QueryBuilder \<Rightarrow> QueryBuilder" where
  "startWith primaryKeys qb =
     qb\<lparr>qb_startPrimaryKey :=
          Some (autoCompletePartialPrimaryKey qb primaryKeys True (getOrderDirection qb))\<rparr>"

definition endWith :: "jsobj \<Rightarrow> QueryBuilder \<Rightarrow> QueryBuilder" where
  "endWith primaryKeys qb =
     qb\<lparr>qb_endPrimaryKey :=
          Some (autoCompletePartialPrimaryKey qb primaryKeys False (getOrderDirection qb))\<rparr>"

definition buildMinPrimaryKey :: "QueryBuilder \<Rightarrow> PrimaryKeyInput" where
  "buildMinPrimaryKey qb =
     map (\<lambda>column. (propertyName column, INF_MIN)) (primaryColumns (qb_metadata qb))"

definition buildMaxPrimaryKey :: "QueryBuilder \<Rightarrow> PrimaryKeyInput" where
  "buildMaxPrimaryKey qb =
     map (\<lambda>column. (propertyName column, INF_MAX)) (primaryColumns (qb_metadata qb))"

text \<open>Every primary-key name is a key of \<open>_where\<close>.\<close>

definition isExactPrimaryKeyQuery :: "QueryBuilder \<Rightarrow> bool" where
  "isExactPrimaryKeyQuery qb =
     list_all (\<lambda>pkName. pkName \<in> set (object_keys (qb_where qb)))
       (map propertyName (primaryColumns (qb_metadata qb)))"

text \<open>Some key of \<open>_where\<close> is a primary-key name, and not every primary-key name is a key.\<close>

definition isPartialPrimaryKeyQuery :: "QueryBuilder \<Rightarrow> bool" where
  "isPartialPrimaryKeyQuery qb =
     (list_ex (\<lambda>key. key \<in> set (map propertyName (primaryColumns (qb_metadata qb))))
        (object_keys (qb_where qb))
      \<and> \<not> list_all (\<lambda>pkName. pkName \<in> set (object_keys (qb_where qb)))
            (map propertyName (primaryColumns (qb_metadata qb))))"

text \<open>
  \<open>convertPartialPrimaryKeyToRange()\<close>: a boundary that is not set yet is completed from
  \<open>_where\<close>, and \<open>_where\<close> is emptied.
\<close>

definition convertPartialPrimaryKeyToRange :: "QueryBuilder \<Rightarrow> QueryBuilder" where
  "convertPartialPrimaryKeyToRange qb =
     (let orderDirection = getOrderDirection qb;
          qb1 = (case qb_startPrimaryKey qb of
                   None \<Rightarrow> qb\<lparr>qb_startPrimaryKey :=
                                Some (autoCompletePartialPrimaryKey qb (qb_where qb) True
                                        orderDirection)\<rparr>
                 | Some _ \<Rightarrow> qb);
          qb2 = (case qb_endPrimaryKey qb1 of
                   None \<Rightarrow> qb1\<lparr>qb_endPrimaryKey :=
                                 Some (autoCompletePartialPrimaryKey qb1 (qb_where qb1) False
                                         orderDirection)\<rparr>
                 | Some _ \<Rightarrow> qb1)
      in qb2\<lparr>qb_where := []\<rparr>)"

text \<open>
  A query gives back its result or the error thrown, the builder afterwards, and the calls
  issued to the store.
\<close>

type_synonym qb_result = "(error + QueryResult) \<times> QueryBuilder \<times> request list"

text \<open>\<open>this._select.length > 0 ? this._select : undefined\<close>.\<close>

definition columnsToGet_of :: "QueryBuilder \<Rightarrow> string list option" where
  "columnsToGet_of qb = (if qb_select qb \<noteq> [] then Some (qb_select qb) else None)"

text \<open>
  The request of \<open>executeGetRowQuery\<close> (its object literal): the table, the key and
  the columns to get, and nothing else.
\<close>

definition getRow_params :: "QueryBuilder \<Rightarrow> GetRowParams" where
  "getRow_params qb =
     \<lparr> gr_tableName = tableName (qb_metadata qb),
       gr_primaryKey = qb_convertPrimaryKeysToTablestore qb (qb_where qb),
       gr_columnsToGet = columnsToGet_of qb,
       gr_columnFilter = None, gr_transactionId = None \<rparr>"

text \<open>
  \<open>executeGetRowQuery(client)\<close>: no row, a row without a primary key, or a
  row-not-found error of the store give the empty result; otherwise the row read is
  converted and returned.
\<close>

definition executeGetRowQuery :: "EntityManager \<Rightarrow> Client \<Rightarrow> QueryBuilder \<Rightarrow> qb_result" where
  "executeGetRowQuery em client qb =
     (case getRow client (getRow_params qb) of
        Inl e \<Rightarrow>
          if isRowNotFoundError em e
          then (Inr \<lparr>entities = [], nextStartPrimaryKey = None\<rparr>, qb,
                [GetRow (getRow_params qb)])
          else (Inl e, qb, [GetRow (getRow_params qb)])
      | Inr None \<Rightarrow>
          (Inr \<lparr>entities = [], nextStartPrimaryKey = None\<rparr>, qb, [GetRow (getRow_params qb)])
      | Inr (Some row) \<Rightarrow>
          if row_primaryKey row = None
          then (Inr \<lparr>entities = [], nextStartPrimaryKey = None\<rparr>, qb,
                [GetRow (getRow_params qb)])
          else (Inr \<lparr>entities =
                       [convertTablestoreToEntity em row (qb_entityClass qb) (qb_metadata qb)],
                     nextStartPrimaryKey = None\<rparr>,
                qb, [GetRow (getRow_params qb)]))"

text \<open>
  The request of \<open>executeGetRangeQuery\<close>: boundaries that are not set default to the
  all-minimum and all-maximum keys in the order the direction needs; the limit is
  \<open>this._limit || 100\<close>.
\<close>

definition getRange_params :: "QueryBuilder \<Rightarrow> GetRangeParams" where
  "getRange_params qb =
     (let direction = getDirection qb;
          inclusiveStartPrimaryKey =
            (if direction = BACKWARD
             then (case qb_startPrimaryKey qb of Some k \<Rightarrow> k | None \<Rightarrow> buildMaxPrimaryKey qb)
             else (case qb_startPrimaryKey qb of Some k \<Rightarrow> k | None \<Rightarrow> buildMinPrimaryKey qb));
          exclusiveEndPrimaryKey =
            (if direction = BACKWARD
             then (case qb_endPrimaryKey qb of Some k \<Rightarrow> k | None \<Rightarrow> buildMinPrimaryKey qb)
             else (case qb_endPrimaryKey qb of Some k \<Rightarrow> k | None \<Rightarrow> buildMaxPrimaryKey qb))
      in \<lparr> rg_tableName = tableName (qb_metadata qb),
           rg_inclusiveStartPrimaryKey = inclusiveStartPrimaryKey,
           rg_exclusiveEndPrimaryKey = exclusiveEndPrimaryKey,
           rg_limit = (case qb_limit qb of
                         None \<Rightarrow> 100
                       | Some n \<Rightarrow> if n = 0 then 100 else n),
           rg_direction = direction,
           rg_columnsToGet = columnsToGet_of qb,
           rg_columnFilter = qb_columnCondition qb \<rparr>)"

text \<open>\<open>executeGetRangeQuery(client)\<close>: every row of the response is converted.\<close>

definition executeGetRangeQuery :: "EntityManager \<Rightarrow> Client \<Rightarrow> QueryBuilder \<Rightarrow> qb_result" where
  "executeGetRangeQuery em client qb =
     (case getRange client (getRange_params qb) of
        Inl e \<Rightarrow> (Inl e, qb, [GetRange (getRange_params qb)])
      | Inr (rows, next) \<Rightarrow>
          (Inr \<lparr>entities =
                  map (\<lambda>row. convertTablestoreToEntity em row (qb_entityClass qb)
                               (qb_metadata qb)) rows,
                nextStartPrimaryKey = next\<rparr>,
           qb, [GetRange (getRange_params qb)]))"

text \<open>
  \<open>executeQuery()\<close>: a point read when every primary-key name is in \<open>_where\<close>, else a
  range read, after completing a partial key into boundaries.
\<close>

definition executeQuery :: "EntityManager \<Rightarrow> Client \<Rightarrow> QueryBuilder \<Rightarrow> qb_result" where
  "executeQuery em client qb =
     (if isExactPrimaryKeyQuery qb then executeGetRowQuery em client qb
      else if isPartialPrimaryKeyQuery qb
      then executeGetRangeQuery em client (convertPartialPrimaryKeyToRange qb)
      else executeGetRangeQuery em client qb)"

text \<open>
  \<open>getRawAndEntities()\<close> is \<open>executeQuery()\<close>; \<open>getMany()\<close> returns its entities;
  \<open>getOne()\<close> sets the limit to 1 first and returns the first entity or \<open>null\<close>.
\<close>

definition getRawAndEntities :: "EntityManager \<Rightarrow> Client \<Rightarrow> QueryBuilder \<Rightarrow> qb_result" where
  "getRawAndEntities em client qb = executeQuery em client qb"

definition getMany ::
  "EntityManager \<Rightarrow> Client \<Rightarrow> QueryBuilder \<Rightarrow> (error + jsobj list) \<times> QueryBuilder \<times> request list" where
  "getMany em client qb =
     (case executeQuery em client qb of
        (Inl e, qb', calls) \<Rightarrow> (Inl e, qb', calls)
      | (Inr result, qb', calls) \<Rightarrow> (Inr (entities result), qb', calls))"

definition getOne ::
  "EntityManager \<Rightarrow> Client \<Rightarrow> QueryBuilder
     \<Rightarrow> (error + jsobj option) \<times> QueryBuilder \<times> request list" where
  "getOne em client qb =
     (case executeQuery em client (limit 1 qb) of
        (Inl e, qb', calls) \<Rightarrow> (Inl e, qb', calls)
      | (Inr result, qb', calls) \<Rightarrow>
          (Inr (case entities result of [] \<Rightarrow> None | entity # _ \<Rightarrow> Some entity), qb', calls))"

section \<open>filter-factory.ts\<close>

text \<open>
  The options of a comparison, \<open>passIfMissing\<close> and \<open>latestVersionOnly\<close>; each is
  \<open>true\<close> when it is not given.
\<close>

record ColumnFilterOptions =
  passIfMissing :: "bool option"
  latestVersionOnly :: "bool option"

text \<open>
  A value handed to a comparison: a JavaScript value of the model, or a \<open>Date\<close>, given
  by its \<open>getTime()\<close>.
\<close>

datatype filter_value = Value jsval | DateValue int

definition findColumnMetadata :: "EntityMetadata \<Rightarrow> string \<Rightarrow> ColumnMetadata option" where
  "findColumnMetadata metadata fieldName =
     find (\<lambda>col. propertyName col = fieldName) (columns metadata)"

text \<open>
  The factory's own \<open>convertValueToTablestore\<close>: an integer number becomes a Long, a
  date its time stamp, any other value is passed as it is.
\<close>

fun ff_convertValueToTablestore :: "filter_value \<Rightarrow> ColumnMetadata \<Rightarrow> tsval" where
  "ff_convertValueToTablestore (Value (JNum i)) column = Long i"
| "ff_convertValueToTablestore (DateValue t) column = Plain (JNum t)"
| "ff_convertValueToTablestore (Value v) column = Plain v"

text \<open>
  \<open>createSingleCondition(field, value, comparator, options)\<close>: throws for a field that
  is not a column of the entity, and for a value that converts to \<open>null\<close> or
  \<open>undefined\<close>.
\<close>

definition createSingleCondition ::
  "EntityMetadata \<Rightarrow> string \<Rightarrow> filter_value \<Rightarrow> ComparatorType \<Rightarrow> ColumnFilterOptions option
     \<Rightarrow> error + ColumnCondition" where
  "createSingleCondition metadata fieldName v comparator options =
     (case findColumnMetadata metadata fieldName of
        None \<Rightarrow> Inl (FieldNotInEntity fieldName)
      | Some columnMetadata \<Rightarrow>
          (let columnValue = ff_convertValueToTablestore v columnMetadata
           in if columnValue = Plain JNull \<or> columnValue = Plain JUndefined
              then Inl (FieldValueMissing fieldName)
              else Inr (SingleColumnCondition fieldName columnValue comparator
                          (case options of
                             None \<Rightarrow> True
                           | Some opts \<Rightarrow> (case passIfMissing opts of None \<Rightarrow> True | Some b \<Rightarrow> b))
                          (case options of
                             None \<Rightarrow> True
                           | Some opts \<Rightarrow>
                               (case latestVersionOnly opts of None \<Rightarrow> True | Some b \<Rightarrow> b)))))"

definition equals ::
  "EntityMetadata \<Rightarrow> string \<Rightarrow> filter_value \<Rightarrow> ColumnFilterOptions option
     \<Rightarrow> error + ColumnCondition" where
  "equals metadata field v options = createSingleCondition metadata field v EQUAL options"

definition notEqual ::
  "EntityMetadata \<Rightarrow> string \<Rightarrow> filter_value \<Rightarrow> ColumnFilterOptions option
     \<Rightarrow> error + ColumnCondition" where
  "notEqual metadata field v options = createSingleCondition metadata field v NOT_EQUAL options"

definition greaterThan ::
  "EntityMetadata \<Rightarrow> string \<Rightarrow> filter_value \<Rightarrow> ColumnFilterOptions option
     \<Rightarrow> error + ColumnCondition" where
  "greaterThan metadata field v options =
     createSingleCondition metadata field v GREATER_THAN options"

definition greaterThanOrEqual ::
  "EntityMetadata \<Rightarrow> string \<Rightarrow> filter_value \<Rightarrow> ColumnFilterOptions option
     \<Rightarrow> error + ColumnCondition" where
  "greaterThanOrEqual metadata field v options =
     createSingleCondition metadata field v GREATER_EQUAL options"

definition lessThan ::
  "EntityMetadata \<Rightarrow> string \<Rightarrow> filter_value \<Rightarrow> ColumnFilterOptions option
     \<Rightarrow> error + ColumnCondition" where
  "lessThan metadata field v options = createSingleCondition metadata field v LESS_THAN options"

definition lessThanOrEqual ::
  "EntityMetadata \<Rightarrow> string \<Rightarrow> filter_value \<Rightarrow> ColumnFilterOptions option
     \<Rightarrow> error + ColumnCondition" where
  "lessThanOrEqual metadata field v options =
     createSingleCondition metadata field v LESS_EQUAL options"

text \<open>\<open>and(...conditions)\<close>, \<open>or(...conditions)\<close> and \<open>not(condition)\<close>.\<close>

definition and_conditions :: "ColumnCondition list \<Rightarrow> error + ColumnCondition" where
  "and_conditions conditions =
     (if length conditions = 0 then Inl EmptyAnd else Inr (CompositeCondition AND conditions))"

definition or_conditions :: "ColumnCondition list \<Rightarrow> error + ColumnCondition" where
  "or_conditions conditions =
     (if length conditions = 0 then Inl EmptyOr else Inr (CompositeCondition OR conditions))"

definition not_condition :: "ColumnCondition \<Rightarrow> ColumnCondition" where
  "not_condition condition = CompositeCondition NOT [condition]"

text \<open>The errors the filter factory throws.\<close>

fun is_filter_validation_error :: "error \<Rightarrow> bool" where
  "is_filter_validation_error (FieldNotInEntity f) = True"
| "is_filter_validation_error (FieldValueMissing f) = True"
| "is_filter_validation_error EmptyAnd = True"
| "is_filter_validation_error EmptyOr = True"
| "is_filter_validation_error _ = False"

section \<open>The JavaScript runtime under pagination.ts: base64, UTF-8 and JSON\<close>

text \<open>
  pagination.ts builds its cursors from \<open>JSON.stringify\<close>, \<open>JSON.parse\<close> and the
  \<open>Buffer\<close> of Node.js. These belong to the runtime, not to the repository; they are
  written out here as they are specified to behave, so that the two cursor functions can
  be run.

  A \<open>Buffer\<close> is a list of bytes; a \<open>char\<close> is one byte. A JavaScript string is held as
  the bytes of its UTF-8 form, so a string without lone surrogates and its \<open>Buffer\<close> are
  the same list.
\<close>

type_synonym bytes = string

subsection \<open>base64\<close>

text \<open>The digit of the standard alphabet for a value below 64.\<close>

definition base64_char :: "nat \<Rightarrow> char" where
  "base64_char n =
     (if n < 26 then char_of (65 + n)
      else if n < 52 then char_of (71 + n)
      else if n < 62 then char_of (n - 4)
      else if n = 62 then CHR ''+'' else CHR ''/'')"

text \<open>\<open>buf.toString('base64')\<close>: three bytes give four digits, and the end is padded.\<close>

fun Buffer_toString_base64 :: "bytes \<Rightarrow> string" where
  "Buffer_toString_base64 (a # b # c # rest) =
     base64_char (of_char a div 4)
     # base64_char ((of_char a mod 4) * 16 + of_char b div 16)
     # base64_char ((of_char b mod 16) * 4 + of_char c div 64)
     # base64_char (of_char c mod 64)
     # Buffer_toString_base64 rest"
| "Buffer_toString_base64 [a, b] =
     [base64_char (of_char a div 4),
      base64_char ((of_char a mod 4) * 16 + of_char b div 16),
      base64_char ((of_char b mod 16) * 4), CHR ''='']"
| "Buffer_toString_base64 [a] =
     [base64_char (of_char a div 4), base64_char ((of_char a mod 4) * 16), CHR ''='', CHR ''='']"
| "Buffer_toString_base64 [] = []"

text \<open>
  The decoder's table: the value of a digit of the standard alphabet (\<open>A-Z\<close>, \<open>a-z\<close>,
  \<open>0-9\<close>, \<open>+\<close> = 43, \<open>/\<close> = 47) or of the URL-safe one (\<open>-\<close> = 45, \<open>_\<close> = 95),
  nothing for any other character.
\<close>

definition unbase64 :: "char \<Rightarrow> nat option" where
  "unbase64 c =
     (let x = (of_char c :: nat)
      in if 65 \<le> x \<and> x \<le> 90 then Some (x - 65)
         else if 97 \<le> x \<and> x \<le> 122 then Some (x - 71)
         else if 48 \<le> x \<and> x \<le> 57 then Some (x + 4)
         else if x = 43 \<or> x = 45 then Some 62
         else if x = 47 \<or> x = 95 then Some 63
         else None)"

text \<open>Groups of four digits give three bytes; a last group of two or three gives one or two.\<close>

fun sextets_to_bytes :: "nat list \<Rightarrow> bytes" where
  "sextets_to_bytes (a # b # c # d # rest) =
     char_of (a * 4 + b div 16) # char_of ((b mod 16) * 16 + c div 4)
     # char_of ((c mod 4) * 64 + d) # sextets_to_bytes rest"
| "sextets_to_bytes [a, b, c] = [char_of (a * 4 + b div 16), char_of ((b mod 16) * 16 + c div 4)]"
| "sextets_to_bytes [a, b] = [char_of (a * 4 + b div 16)]"
| "sextets_to_bytes [a] = []"
| "sextets_to_bytes [] = []"

text \<open>
  Node's decoder works on bytes: it reads up to the first \<open>=\<close>, skips every byte that is
  not a digit of either alphabet (white space included) and decodes the digits that are
  left; padding is not required.
\<close>

definition base64_decode :: "bytes \<Rightarrow> bytes" where
  "base64_decode s =
     sextets_to_bytes (List.map_filter unbase64 (takeWhile (\<lambda>c. c \<noteq> CHR ''='') s))"

text \<open>
  The UTF-16 code units of a string, which is held here as its UTF-8 bytes: one unit for
  a character of up to three bytes, a surrogate pair for one of four. The text of a
  JavaScript string is well-formed, so a sequence is never cut short; the list ends
  there if it is.
\<close>

fun utf16_code_units :: "string \<Rightarrow> nat list" where
  "utf16_code_units [] = []"
| "utf16_code_units (a # s) =
     (let x = (of_char a :: nat)
      in if x < 128 then x # utf16_code_units s
         else if x < 224
         then (case s of
                 b # s1 \<Rightarrow> ((x - 192) * 64 + (of_char b - 128)) # utf16_code_units s1
               | _ \<Rightarrow> [])
         else if x < 240
         then (case s of
                 b # c # s2 \<Rightarrow>
                   ((x - 224) * 4096 + (of_char b - 128) * 64 + (of_char c - 128))
                   # utf16_code_units s2
               | _ \<Rightarrow> [])
         else (case s of
                 b # c # d # s3 \<Rightarrow>
                   (let v = (x - 240) * 262144 + (of_char b - 128) * 4096
                              + (of_char c - 128) * 64 + (of_char d - 128) - 65536
                    in (55296 + v div 1024) # (56320 + v mod 1024) # utf16_code_units s3)
               | _ \<Rightarrow> []))"

text \<open>
  \<open>Buffer.from(s, 'base64')\<close> never throws. The decoder is handed the code units of the
  string and narrows each to its low byte, so a character beyond U+00FF counts as the
  byte its code unit ends in: U+4E2D is read as \<open>-\<close> (0x2D).
\<close>

definition Buffer_from_base64 :: "string \<Rightarrow> bytes" where
  "Buffer_from_base64 s = base64_decode (map char_of (utf16_code_units s))"

subsection \<open>UTF-8\<close>

text \<open>\<open>Buffer.from(s)\<close>: the UTF-8 bytes of the string.\<close>

definition Buffer_from_utf8 :: "string \<Rightarrow> bytes" where
  "Buffer_from_utf8 s = s"

text \<open>
  \<open>buf.toString('utf-8')\<close> never throws: it decodes as the WHATWG decoder does, putting
  U+FFFD (bytes EF BF BD) for every maximal ill-formed part. The decoder's state is the
  number of continuation bytes still needed, the bytes of the sequence read so far, and
  the range the next byte must lie in.
\<close>

definition replacement_character :: string where
  "replacement_character = [char_of (0xEF :: nat), char_of (0xBF :: nat), char_of (0xBD :: nat)]"

type_synonym utf8_state = "nat \<times> string \<times> nat \<times> nat"

definition utf8_initial :: utf8_state where
  "utf8_initial = (0, [], 0x80, 0xBF)"

text \<open>A byte read when no sequence is open.\<close>

definition utf8_first :: "char \<Rightarrow> string \<times> utf8_state" where
  "utf8_first b =
     (let x = (of_char b :: nat)
      in if x < 0x80 then ([b], utf8_initial)
         else if 0xC2 \<le> x \<and> x \<le> 0xDF then ([], (1, [b], 0x80, 0xBF))
         else if x = 0xE0 then ([], (2, [b], 0xA0, 0xBF))
         else if x = 0xED then ([], (2, [b], 0x80, 0x9F))
         else if 0xE1 \<le> x \<and> x \<le> 0xEF then ([], (2, [b], 0x80, 0xBF))
         else if x = 0xF0 then ([], (3, [b], 0x90, 0xBF))
         else if x = 0xF4 then ([], (3, [b], 0x80, 0x8F))
         else if 0xF1 \<le> x \<and> x \<le> 0xF3 then ([], (3, [b], 0x80, 0xBF))
         else (replacement_character, utf8_initial))"

text \<open>
  One byte in any state: a byte outside the range closes the open sequence with U+FFFD
  and is read again as a first byte.
\<close>

definition utf8_step :: "utf8_state \<Rightarrow> char \<Rightarrow> string \<times> utf8_state" where
  "utf8_step st b =
     (case st of (needed, seen, lower, upper) \<Rightarrow>
        if needed = 0 then utf8_first b
        else if lower \<le> of_char b \<and> of_char b \<le> upper
        then (if needed = 1 then (seen @ [b], utf8_initial)
              else ([], (needed - 1, seen @ [b], 0x80, 0xBF)))
        else (case utf8_first b of (out, st') \<Rightarrow> (replacement_character @ out, st')))"

fun utf8_decode :: "utf8_state \<Rightarrow> bytes \<Rightarrow> string" where
  "utf8_decode st [] = (if fst st \<noteq> 0 then replacement_character else [])"
| "utf8_decode st (b # bs) = (case utf8_step st b of (out, st') \<Rightarrow> out @ utf8_decode st' bs)"

definition Buffer_toString_utf8 :: "bytes \<Rightarrow> string" where
  "Buffer_toString_utf8 buf = utf8_decode utf8_initial buf"

text \<open>The well-formed UTF-8 byte sequences (Unicode, table 3-7).\<close>

definition in_range :: "char \<Rightarrow> nat \<Rightarrow> nat \<Rightarrow> bool" where
  "in_range b lower upper = (lower \<le> of_char b \<and> of_char b \<le> upper)"

fun utf8_valid :: "string \<Rightarrow> bool" where
  "utf8_valid [] = True"
| "utf8_valid (a # s) =
     (let x = (of_char a :: nat)
      in if x < 0x80 then utf8_valid s
         else if 0xC2 \<le> x \<and> x \<le> 0xDF
         then (case s of b # s1 \<Rightarrow> in_range b 0x80 0xBF \<and> utf8_valid s1 | _ \<Rightarrow> False)
         else if 0xE0 \<le> x \<and> x \<le> 0xEF
         then (case s of
                 b # c # s2 \<Rightarrow>
                   in_range b (if x = 0xE0 then 0xA0 else 0x80) (if x = 0xED then 0x9F else 0xBF)
                   \<and> in_range c 0x80 0xBF \<and> utf8_valid s2
               | _ \<Rightarrow> False)
         else if 0xF0 \<le> x \<and> x \<le> 0xF4
         then (case s of
                 b # c # d # s3 \<Rightarrow>
                   in_range b (if x = 0xF0 then 0x90 else 0x80) (if x = 0xF4 then 0x8F else 0xBF)
                   \<and> in_range c 0x80 0xBF \<and> in_range d 0x80 0xBF \<and> utf8_valid s3
               | _ \<Rightarrow> False)
         else False)"

subsection \<open>JSON\<close>

definition is_digit :: "char \<Rightarrow> bool" where
  "is_digit c = (48 \<le> (of_char c :: nat) \<and> (of_char c :: nat) \<le> 57)"

definition digit_char :: "nat \<Rightarrow> char" where
  "digit_char n = char_of (48 + n)"

fun show_nat :: "nat \<Rightarrow> string" where
  "show_nat n = (if n < 10 then [digit_char n] else show_nat (n div 10) @ [digit_char (n mod 10)])"

declare show_nat.simps [simp del]

text \<open>
  The numeral of an integer number. (JavaScript writes an integer of 22 digits or more
  with an exponent; the properties below stay within the safe integers.)
\<close>

definition show_int :: "int \<Rightarrow> string" where
  "show_int i = (if i < 0 then CHR ''-'' # show_nat (nat (- i)) else show_nat (nat i))"

definition hex_digit :: "nat \<Rightarrow> char" where
  "hex_digit n = (if n < 10 then char_of (48 + n) else char_of (87 + n))"

text \<open>
  How \<open>JSON.stringify\<close> writes one byte of a string: the quote, the backslash and the
  control characters are escaped, every other byte stands for itself.
\<close>

definition quote_char :: "char \<Rightarrow> string" where
  "quote_char c =
     (let x = (of_char c :: nat)
      in if c = CHR 0x22 then [CHR 0x5C, CHR 0x22]
         else if c = CHR 0x5C then [CHR 0x5C, CHR 0x5C]
         else if x = 8 then [CHR 0x5C, CHR ''b'']
         else if x = 12 then [CHR 0x5C, CHR ''f'']
         else if x = 10 then [CHR 0x5C, CHR ''n'']
         else if x = 13 then [CHR 0x5C, CHR ''r'']
         else if x = 9 then [CHR 0x5C, CHR ''t'']
         else if x < 0x20
         then [CHR 0x5C, CHR ''u'', CHR ''0'', CHR ''0'', hex_digit (x div 16), hex_digit (x mod 16)]
         else [c])"

definition quote :: "string \<Rightarrow> string" where
  "quote s = CHR 0x22 # concat (map quote_char s) @ [CHR 0x22]"

fun join_commas :: "string list \<Rightarrow> string" where
  "join_commas [] = []"
| "join_commas [x] = x"
| "join_commas (x # y # zs) = x @ CHR '','' # join_commas (y # zs)"

text \<open>
  The text of a value. \<open>undefined\<close> is written \<open>null\<close> inside an array, and a property
  whose value is \<open>undefined\<close> is left out of an object. A \<open>JFloat\<close> is written with the
  numeral it is kept with.
\<close>

fun stringify_value :: "jsval \<Rightarrow> string" where
  "stringify_value JUndefined = ''null''"
| "stringify_value JNull = ''null''"
| "stringify_value (JBool b) = (if b then ''true'' else ''false'')"
| "stringify_value (JNum i) = show_int i"
| "stringify_value (JFloat lexeme) = lexeme"
| "stringify_value (JStr s) = quote s"
| "stringify_value (JArr vs) = CHR ''['' # join_commas (map stringify_value vs) @ [CHR '']'']"
| "stringify_value (JObj kvs) =
     CHR ''{''
     # join_commas (map (\<lambda>(k, v). quote k @ CHR '':'' # stringify_value v)
                      (filter (\<lambda>(k, v). v \<noteq> JUndefined) kvs))
     @ [CHR ''}'']"

text \<open>\<open>JSON.stringify(value)\<close>: \<open>undefined\<close> has no text (the result is \<open>undefined\<close>).\<close>

definition JSON_stringify :: "jsval \<Rightarrow> string option" where
  "JSON_stringify v = (if v = JUndefined then None else Some (stringify_value v))"

text \<open>The reader. White space is the space, the tab, the line feed and the carriage return.\<close>

definition is_ws :: "char \<Rightarrow> bool" where
  "is_ws c = (c = CHR '' '' \<or> (of_char c :: nat) = 9 \<or> (of_char c :: nat) = 10
              \<or> (of_char c :: nat) = 13)"

definition skip_ws :: "string \<Rightarrow> string" where
  "skip_ws s = dropWhile is_ws s"

definition hex_value :: "char \<Rightarrow> nat option" where
  "hex_value c =
     (let x = (of_char c :: nat)
      in if 48 \<le> x \<and> x \<le> 57 then Some (x - 48)
         else if 97 \<le> x \<and> x \<le> 102 then Some (x - 87)
         else if 65 \<le> x \<and> x \<le> 70 then Some (x - 55)
         else None)"

text \<open>The value of exactly four hexadecimal digits.\<close>

definition hex4 :: "string \<Rightarrow> nat option" where
  "hex4 s =
     (case map hex_value s of
        [Some a, Some b, Some c, Some d] \<Rightarrow> Some (((a * 16 + b) * 16 + c) * 16 + d)
      | _ \<Rightarrow> None)"

text \<open>The UTF-8 bytes of a code point.\<close>

definition utf8_encode :: "nat \<Rightarrow> string" where
  "utf8_encode cp =
     (if cp < 0x80 then [char_of cp]
      else if cp < 0x800 then [char_of (0xC0 + cp div 64), char_of (0x80 + cp mod 64)]
      else if cp < 0x10000
      then [char_of (0xE0 + cp div 4096), char_of (0x80 + (cp div 64) mod 64),
            char_of (0x80 + cp mod 64)]
      else [char_of (0xF0 + cp div 262144), char_of (0x80 + (cp div 4096) mod 64),
            char_of (0x80 + (cp div 64) mod 64), char_of (0x80 + cp mod 64)])"

text \<open>
  The bytes for a \<open>\\u\<close> escape that stands alone. A surrogate without its partner has no
  UTF-8 form; U+FFFD stands in for it, as it would once the string is turned into bytes.
\<close>

definition code_unit_bytes :: "nat \<Rightarrow> string" where
  "code_unit_bytes cu =
     (if 0xD800 \<le> cu \<and> cu \<le> 0xDFFF then replacement_character else utf8_encode cu)"

text \<open>
  The low surrogate written as an escape at the head of the text, if there is one.
\<close>

definition low_surrogate_escape :: "string \<Rightarrow> nat option" where
  "low_surrogate_escape s =
     (if take 2 s = [CHR 0x5C, CHR ''u'']
      then (case hex4 (take 4 (drop 2 s)) of
              None \<Rightarrow> None
            | Some lo \<Rightarrow> if 0xDC00 \<le> lo \<and> lo \<le> 0xDFFF then Some lo else None)
      else None)"

definition simple_escape :: "char \<Rightarrow> char option" where
  "simple_escape e =
     (if e = CHR 0x22 then Some (CHR 0x22)
      else if e = CHR 0x5C then Some (CHR 0x5C)
      else if e = CHR ''/'' then Some (CHR ''/'')
      else if e = CHR ''b'' then Some (char_of (8 :: nat))
      else if e = CHR ''f'' then Some (char_of (12 :: nat))
      else if e = CHR ''n'' then Some (char_of (10 :: nat))
      else if e = CHR ''r'' then Some (char_of (13 :: nat))
      else if e = CHR ''t'' then Some (char_of (9 :: nat))
      else None)"

text \<open>
  The rest of a string after its opening quote: the string's bytes and the text after
  the closing quote. A raw control character, an unknown escape and a missing closing
  quote are errors.
\<close>

fun parse_string_body :: "string \<Rightarrow> (string \<times> string) option" where
  "parse_string_body [] = None"
| "parse_string_body (c # s) =
     (if c = CHR 0x22 then Some ([], s)
      else if c = CHR 0x5C
      then (case s of
              [] \<Rightarrow> None
            | e # s' \<Rightarrow>
                if e = CHR ''u''
                then (case hex4 (take 4 s') of
                        None \<Rightarrow> None
                      | Some cu \<Rightarrow>
                          (case (if 0xD800 \<le> cu \<and> cu \<le> 0xDBFF
                                 then low_surrogate_escape (drop 4 s') else None) of
                             Some lo \<Rightarrow>
                               (case parse_string_body (drop 10 s') of
                                  None \<Rightarrow> None
                                | Some (str, rest) \<Rightarrow>
                                    Some (utf8_encode (0x10000 + (cu - 0xD800) * 1024 + (lo - 0xDC00))
                                          @ str, rest))
                           | None \<Rightarrow>
                               (case parse_string_body (drop 4 s') of
                                  None \<Rightarrow> None
                                | Some (str, rest) \<Rightarrow> Some (code_unit_bytes cu @ str, rest))))
                else (case simple_escape e of
                        None \<Rightarrow> None
                      | Some ch \<Rightarrow>
                          (case parse_string_body s' of
                             None \<Rightarrow> None
                           | Some (str, rest) \<Rightarrow> Some (ch # str, rest))))
      else if (of_char c :: nat) < 0x20 then None
      else (case parse_string_body s of
              None \<Rightarrow> None
            | Some (str, rest) \<Rightarrow> Some (c # str, rest)))"

definition read_nat :: "string \<Rightarrow> nat" where
  "read_nat ds = foldl (\<lambda>acc c. acc * 10 + (of_char c - 48)) 0 ds"

text \<open>
  A number: an optional minus sign, an integer part without a leading zero, then an
  optional fraction and an optional exponent. Without fraction and exponent it is the
  integer; with one of them it is kept as a \<open>JFloat\<close> with its numeral. Floating point
  is not evaluated: JavaScript reads \<open>1.0\<close> and \<open>1e2\<close> as the integers they denote and
  rounds an integer beyond 2^53, which is not done here.
\<close>

definition parse_number :: "string \<Rightarrow> (jsval \<times> string) option" where
  "parse_number s =
     (let negative = (take 1 s = ''-'');
          s1 = (if negative then drop 1 s else s);
          ds = takeWhile is_digit s1;
          r1 = dropWhile is_digit s1;
          has_frac = (take 1 r1 = ''.'');
          fd = (if has_frac then takeWhile is_digit (drop 1 r1) else []);
          r2 = (if has_frac then dropWhile is_digit (drop 1 r1) else r1);
          has_exp = (take 1 r2 = ''e'' \<or> take 1 r2 = ''E'');
          r3 = (if has_exp
                then (if take 1 (drop 1 r2) = ''+'' \<or> take 1 (drop 1 r2) = ''-''
                      then drop 2 r2 else drop 1 r2)
                else r2);
          ed = (if has_exp then takeWhile is_digit r3 else []);
          r4 = (if has_exp then dropWhile is_digit r3 else r2)
      in if ds = [] \<or> (length ds > 1 \<and> hd ds = CHR ''0'') then None
         else if has_frac \<and> fd = [] then None
         else if has_exp \<and> ed = [] then None
         else if has_frac \<or> has_exp then Some (JFloat (take (length s - length r4) s), r4)
         else Some (JNum (if negative then - int (read_nat ds) else int (read_nat ds)), r4))"

definition parse_literal :: "string \<Rightarrow> (jsval \<times> string) option" where
  "parse_literal s =
     (if take 4 s = ''null'' then Some (JNull, drop 4 s)
      else if take 4 s = ''true'' then Some (JBool True, drop 4 s)
      else if take 5 s = ''false'' then Some (JBool False, drop 5 s)
      else None)"

text \<open>A value that is not an array or an object, at the head of the text.\<close>

definition parse_scalar :: "string \<Rightarrow> (jsval \<times> string) option" where
  "parse_scalar s =
     (case s of
        [] \<Rightarrow> None
      | c # rest \<Rightarrow>
          if c = CHR 0x22
          then (case parse_string_body rest of
                  None \<Rightarrow> None
                | Some (str, rest') \<Rightarrow> Some (JStr str, rest'))
          else if c = CHR ''-'' \<or> is_digit c then parse_number s
          else parse_literal s)"

text \<open>
  Defining a property while an object is read: a name that is there already keeps its
  place and takes the new value, and a new name comes last. (JavaScript enumerates a
  name that looks like an array index before the others; names are kept in the order
  of the text here.)
\<close>

fun set_member :: "(string \<times> jsval) list \<Rightarrow> string \<Rightarrow> jsval \<Rightarrow> (string \<times> jsval) list" where
  "set_member [] k v = [(k, v)]"
| "set_member ((k', v') # kvs) k v =
     (if k' = k then (k, v) # kvs else (k', v') # set_member kvs k v)"

text \<open>
  A value, the elements of an array after its bracket, and the members of an object
  after its brace. Each gives the value read and the text after it. The first argument
  bounds the number of nested calls; \<open>JSON_parse\<close> starts with more than the text can use
  up, since every call reads at least one character.
\<close>

fun parse_value :: "nat \<Rightarrow> string \<Rightarrow> (jsval \<times> string) option"
  and parse_elements :: "nat \<Rightarrow> jsval list \<Rightarrow> string \<Rightarrow> (jsval \<times> string) option"
  and parse_members :: "nat \<Rightarrow> (string \<times> jsval) list \<Rightarrow> string \<Rightarrow> (jsval \<times> string) option"
where
  "parse_value 0 s = None"
| "parse_value (Suc n) s =
     (case skip_ws s of
        [] \<Rightarrow> None
      | c # rest \<Rightarrow>
          if c = CHR ''[''
          then (case skip_ws rest of
                  [] \<Rightarrow> None
                | c' # rest' \<Rightarrow>
                    if c' = CHR '']'' then Some (JArr [], rest') else parse_elements n [] rest)
          else if c = CHR ''{''
          then (case skip_ws rest of
                  [] \<Rightarrow> None
                | c' # rest' \<Rightarrow>
                    if c' = CHR ''}'' then Some (JObj [], rest') else parse_members n [] rest)
          else parse_scalar (c # rest))"
| "parse_elements 0 acc s = None"
| "parse_elements (Suc n) acc s =
     (case parse_value n s of
        None \<Rightarrow> None
      | Some (v, rest) \<Rightarrow>
          (case skip_ws rest of
             [] \<Rightarrow> None
           | c # rest' \<Rightarrow>
               if c = CHR '','' then parse_elements n (acc @ [v]) rest'
               else if c = CHR '']'' then Some (JArr (acc @ [v]), rest')
               else None))"
| "parse_members 0 acc s = None"
| "parse_members (Suc n) acc s =
     (case skip_ws s of
        [] \<Rightarrow> None
      | q # s1 \<Rightarrow>
          if q \<noteq> CHR 0x22 then None
          else (case parse_string_body s1 of
                  None \<Rightarrow> None
                | Some (key, s2) \<Rightarrow>
                    (case skip_ws s2 of
                       [] \<Rightarrow> None
                     | colon # s3 \<Rightarrow>
                         if colon \<noteq> CHR '':'' then None
                         else (case parse_value n s3 of
                                 None \<Rightarrow> None
                               | Some (v, s4) \<Rightarrow>
                                   (case skip_ws s4 of
                                      [] \<Rightarrow> None
                                    | c # s5 \<Rightarrow>
                                        if c = CHR '','' then parse_members n (set_member acc key v) s5
                                        else if c = CHR ''}''
                                        then Some (JObj (set_member acc key v), s5)
                                        else None)))))"

text \<open>
  \<open>JSON.parse(text)\<close>: the value, or \<open>None\<close> for the SyntaxError it throws when the text
  is not one JSON value with nothing but white space after it.
\<close>

definition JSON_parse :: "string \<Rightarrow> jsval option" where
  "JSON_parse text =
     (case parse_value (Suc (length text)) text of
        None \<Rightarrow> None
      | Some (v, rest) \<Rightarrow> if skip_ws rest = [] then Some v else None)"

section \<open>pagination.ts\<close>

text \<open>
  \<open>encodeCursor(primaryKeys)\<close>. For \<open>undefined\<close>, \<open>JSON.stringify\<close> gives \<open>undefined\<close> and
  \<open>Buffer.from\<close> throws; the \<open>catch\<close> turns that into the encoding error.
\<close>

definition encodeCursor :: "jsval \<Rightarrow> error + string" where
  "encodeCursor primaryKeys =
     (case JSON_stringify primaryKeys of
        None \<Rightarrow> Inl EncodeCursorFailed
      | Some text \<Rightarrow> Inr (Buffer_toString_base64 (Buffer_from_utf8 text)))"

text \<open>
  \<open>decodeCursor(cursor)\<close>. Only \<open>JSON.parse\<close> can throw here; the \<open>catch\<close> turns its
  SyntaxError into the decoding error.
\<close>

definition decodeCursor :: "string \<Rightarrow> error + jsval" where
  "decodeCursor cursor =
     (case JSON_parse (Buffer_toString_utf8 (Buffer_from_base64 cursor)) of
        None \<Rightarrow> Inl DecodeCursorFailed
      | Some v \<Rightarrow> Inr v)"

text \<open>
  The partial keys that a cursor can carry unchanged: an object with distinct property
  names whose values are strings, integers within the safe range of a JavaScript number
  (up to 2^53 - 1 in magnitude), booleans or \<open>null\<close>; names and strings are text (well-formed
  UTF-8).
\<close>

fun representable_value :: "jsval \<Rightarrow> bool" where
  "representable_value JNull = True"
| "representable_value (JBool b) = True"
| "representable_value (JNum i) = (- 9007199254740991 \<le> i \<and> i \<le> 9007199254740991)"
| "representable_value (JStr s) = utf8_valid s"
| "representable_value _ = False"

definition representable_key :: "jsval \<Rightarrow> bool" where
  "representable_key k =
     (case k of
        JObj kvs \<Rightarrow>
          distinct (map fst kvs)
          \<and> list_all (\<lambda>(name, v). utf8_valid name \<and> representable_value v) kvs
      | _ \<Rightarrow> False)"

section \<open>A sample schema and store\<close>

text \<open>
  An entity \<open>Order\<close> with the primary key \<open>(userId, orderId)\<close> and one attribute, an
  entity manager for it whose columns hold strings, and a store client that accepts
  every call and finds no row. The worked instances below run on them.
\<close>

definition sample_metadata :: EntityMetadata where
  "sample_metadata =
     \<lparr> tableName = ''orders'',
       columns = [\<lparr>propertyName = ''userId'', isPrimary = True\<rparr>,
                  \<lparr>propertyName = ''orderId'', isPrimary = True\<rparr>,
                  \<lparr>propertyName = ''amount'', isPrimary = False\<rparr>],
       primaryColumns = [\<lparr>propertyName = ''userId'', isPrimary = True\<rparr>,
                         \<lparr>propertyName = ''orderId'', isPrimary = True\<rparr>] \<rparr>"

definition sample_em :: EntityManager where
  "sample_em =
     \<lparr> getEntityMetadata =
         (\<lambda>cls. if cls = ''Order'' then Inr sample_metadata else Inl (EntityNotRegistered cls)),
       processSpecialColumnsOnInsert = (\<lambda>entity metadata. entity),
       convertEntityToTablestore = em_convertEntityToTablestore (\<lambda>v column. Plain v),
       processSpecialColumnsOnUpdate = (\<lambda>partialEntity metadata primaryKeys. (Inr partialEntity, [])),
       convertPrimaryKeysToTablestore =
         (\<lambda>primaryKeys metadata.
            em_convertPrimaryKeysToTablestore (\<lambda>v column. Plain v) primaryKeys metadata False),
       convertPartialEntityToTablestoreUpdate = (\<lambda>partialEntity metadata. []),
       convertTablestoreToEntity =
         (\<lambda>row cls metadata.
            map (\<lambda>(name, v). (name, case v of Plain j \<Rightarrow> j | Long i \<Rightarrow> JNum i | _ \<Rightarrow> JNull))
              ((case row_primaryKey row of None \<Rightarrow> [] | Some pk \<Rightarrow> pk) @ row_attributes row)),
       isRowNotFoundError = (\<lambda>e. case e of StoreError code msg \<Rightarrow> code = ''OTSRowNotExist'' | _ \<Rightarrow> False) \<rparr>"

definition sample_client :: Client where
  "sample_client =
     \<lparr> putRow = (\<lambda>p. Inr ()), updateRow = (\<lambda>p. Inr ()), deleteRow = (\<lambda>p. Inr ()),
       getRow = (\<lambda>p. Inr None), getRange = (\<lambda>p. Inr ([], None)),
       batchWriteRow = (\<lambda>p. Inr ()), commitTransaction = (\<lambda>t. Inr ()),
       abortTransaction = (\<lambda>t. Inr ()) \<rparr>"

text \<open>The same store, except that committing and aborting a transaction fail.\<close>

definition failing_client :: Client where
  "failing_client =
     sample_client
       \<lparr> commitTransaction := (\<lambda>t. Inl (StoreError ''OTSTimeout'' ''commit failed'')),
         abortTransaction := (\<lambda>t. Inl (StoreError ''OTSTimeout'' ''abort failed'')) \<rparr>"

text \<open>A transaction on the partition \<open>userId = u1\<close>, started at time 1000, 60 s timeout.\<close>

definition sample_tx :: Transaction where
  "sample_tx = new_Transaction ''orders'' [(''userId'', JStr ''u1'')] ''tx-1'' None 1000"

text \<open>A new builder for \<open>Order\<close>, as the constructor leaves it.\<close>

definition sample_builder :: QueryBuilder where
  "sample_builder =
     \<lparr> qb_entityClass = ''Order'', qb_metadata = sample_metadata, qb_select = [],
       qb_where = [], qb_orderBy = [], qb_limit = None, qb_startPrimaryKey = None,
       qb_endPrimaryKey = None, qb_columnCondition = None \<rparr>"

text \<open>\<open>createQueryBuilder().where({userId: 'u1'}).orderBy('DESC')\<close>.\<close>

definition sample_partial_query :: QueryBuilder where
  "sample_partial_query =
     orderBy ''DESC'' None (where_object [(''userId'', JStr ''u1'')] sample_builder)"

text \<open>
  \<open>createQueryBuilder().where({userId: 'u1', orderId: undefined})\<close>: the predicate
  names both columns of the key and gives a value to the first one only.
\<close>

definition sample_unbound_query :: QueryBuilder where
  "sample_unbound_query =
     where_object [(''userId'', JStr ''u1''), (''orderId'', JUndefined)] sample_builder"

text \<open>
  \<open>createQueryBuilder().where({userId: 'u1', orderId: 'o1'})\<close> with the filter
  \<open>amount = 5\<close> attached.
\<close>

definition sample_exact_query :: QueryBuilder where
  "sample_exact_query =
     (where_object [(''userId'', JStr ''u1''), (''orderId'', JStr ''o1'')] sample_builder)
       \<lparr>qb_columnCondition := Some (SingleColumnCondition ''amount'' (Long 5) EQUAL True True)\<rparr>"

text \<open>A row of the table whose amount is 7, and a store that answers every read with it.\<close>

definition sample_row :: Row where
  "sample_row =
     \<lparr> row_primaryKey = Some [(''userId'', Plain (JStr ''u1'')), (''orderId'', Plain (JStr ''o1''))],
       row_attributes = [(''amount'', Long 7)] \<rparr>"

definition row_client :: Client where
  "row_client = sample_client \<lparr> getRow := (\<lambda>p. Inr (Some sample_row)) \<rparr>"

text \<open>The key \<open>{userId: 'u1', orderId: 5}\<close> of a last-seen row.\<close>

definition sample_key :: jsval where
  "sample_key = JObj [(''userId'', JStr ''u1''), (''orderId'', JNum 5)]"

section \<open>Properties of the transaction coordinator\<close>

lemma ensureActive_elapsed:
  "status tx = ACTIVE \<Longrightarrow> now - startTime tx > timeout tx \<Longrightarrow>
     ensureActive tx now = (Inl TransactionTimedOut, tx\<lparr>status := TIMEOUT\<rparr>)"
  by (simp add: ensureActive_def isActive_def)

lemma ensureActive_timed_out:
  "status tx = TIMEOUT \<Longrightarrow> ensureActive tx now = (Inl TransactionTimedOut, tx)"
  by (simp add: ensureActive_def isActive_def)

lemma ensureActive_in_time:
  "status tx = ACTIVE \<Longrightarrow> \<not> now - startTime tx > timeout tx \<Longrightarrow>
     ensureActive tx now = (Inr (), tx)"
  by (simp add: ensureActive_def isActive_def)

lemma ensureActive_ended:
  "status tx = COMMITTED \<or> status tx = ABORTED \<Longrightarrow>
     ensureActive tx now = (Inl TransactionEnded, tx)"
  by (auto simp add: ensureActive_def isActive_def)

lemma sample_tx_fields:
  "status sample_tx = ACTIVE" "startTime sample_tx = 1000" "timeout sample_tx = 60000"
  "transactionId sample_tx = ''tx-1''" "partitionKey sample_tx = [(''userId'', JStr ''u1'')]"
  by (simp_all add: sample_tx_def new_Transaction_def)

text \<open>
  C4. Let the timeout of a transaction have elapsed (\<open>now - startTime > timeout\<close>) while
  its status is still ACTIVE. Then the status check \<open>isActive\<close> answers false and sets the
  status to TIMEOUT, and each of save, update, delete, findOne, batchWrite and commit
  attempted at that time sets the status to TIMEOUT, throws the timed-out error and
  issues no call to the store. From then on, at any time and with any arguments, save,
  update, delete, findOne and batchWrite throw that same transaction-state error,
  leave the status TIMEOUT and issue no call.
\<close>

theorem C4_elapsed_timeout_rejects_operations:
  assumes "status tx = ACTIVE" and "now - startTime tx > timeout tx"
  shows "isActive tx now = (False, tx\<lparr>status := TIMEOUT\<rparr>)
       \<and> save em client tx now cls entity oc = (Inl TransactionTimedOut, tx\<lparr>status := TIMEOUT\<rparr>, [])
       \<and> update em client tx now cls pk pe = (Inl TransactionTimedOut, tx\<lparr>status := TIMEOUT\<rparr>, [])
       \<and> delete em client tx now cls pk oc = (Inl TransactionTimedOut, tx\<lparr>status := TIMEOUT\<rparr>, [])
       \<and> findOne em client tx now cls pk = (Inl TransactionTimedOut, tx\<lparr>status := TIMEOUT\<rparr>, [])
       \<and> batchWrite client tx now ops = (Inl TransactionTimedOut, tx\<lparr>status := TIMEOUT\<rparr>, [])
       \<and> commit client tx now = (Inl TransactionTimedOut, tx\<lparr>status := TIMEOUT\<rparr>, [])
       \<and> is_transaction_state_error TransactionTimedOut
       \<and> (\<forall>later em' client' cls' entity' oc' pk' pe' ops'.
            save em' client' (tx\<lparr>status := TIMEOUT\<rparr>) later cls' entity' oc'
              = (Inl TransactionTimedOut, tx\<lparr>status := TIMEOUT\<rparr>, [])
          \<and> update em' client' (tx\<lparr>status := TIMEOUT\<rparr>) later cls' pk' pe'
              = (Inl TransactionTimedOut, tx\<lparr>status := TIMEOUT\<rparr>, [])
          \<and> delete em' client' (tx\<lparr>status := TIMEOUT\<rparr>) later cls' pk' oc'
              = (Inl TransactionTimedOut, tx\<lparr>status := TIMEOUT\<rparr>, [])
          \<and> findOne em' client' (tx\<lparr>status := TIMEOUT\<rparr>) later cls' pk'
              = (Inl TransactionTimedOut, tx\<lparr>status := TIMEOUT\<rparr>, [])
          \<and> batchWrite client' (tx\<lparr>status := TIMEOUT\<rparr>) later ops'
              = (Inl TransactionTimedOut, tx\<lparr>status := TIMEOUT\<rparr>, []))"
proof -
  let ?tx = "tx\<lparr>status := TIMEOUT\<rparr>"
  have now_rejected: "ensureActive tx now = (Inl TransactionTimedOut, ?tx)"
    using assms by (rule ensureActive_elapsed)
  have later_rejected: "\<And>later. ensureActive ?tx later = (Inl TransactionTimedOut, ?tx)"
    by (rule ensureActive_timed_out) simp
  have "isActive tx now = (False, ?tx)"
    using assms by (simp add: isActive_def)
  then show ?thesis
    by (simp add: now_rejected later_rejected save_def update_def delete_def findOne_def
          batchWrite_def commit_def)
qed

theorem C4_elapsed_timeout_witness:
  "status sample_tx = ACTIVE \<and> 61001 - startTime sample_tx > timeout sample_tx
   \<and> isActive sample_tx 61001 = (False, sample_tx\<lparr>status := TIMEOUT\<rparr>)
   \<and> findOne sample_em sample_client sample_tx 61001 ''Order''
         [(''userId'', JStr ''u1''), (''orderId'', JStr ''o1'')]
       = (Inl TransactionTimedOut, sample_tx\<lparr>status := TIMEOUT\<rparr>, [])
   \<and> save sample_em sample_client (sample_tx\<lparr>status := TIMEOUT\<rparr>) 61002 ''Order''
         [(''userId'', JStr ''u1''), (''orderId'', JStr ''o1'')] None
       = (Inl TransactionTimedOut, sample_tx\<lparr>status := TIMEOUT\<rparr>, [])"
proof -
  have active: "status sample_tx = ACTIVE"
    by (rule sample_tx_fields)
  have elapsed: "61001 - startTime sample_tx > timeout sample_tx"
    by (simp add: sample_tx_fields)
  show ?thesis
    using active elapsed
      C4_elapsed_timeout_rejects_operations [OF active elapsed, of sample_em sample_client]
    by blast
qed

text \<open>
  C7. A commit that reaches the store (status ACTIVE, timeout not elapsed) and whose
  store call fails leaves the status ABORTED and throws the store's error again; one
  whose store call succeeds leaves the status COMMITTED. A rollback of a transaction
  whose status is ACTIVE issues the store's abort and leaves the status ABORTED whether
  that call succeeds or fails. A rollback of a transaction whose status is not ACTIVE
  returns normally, changes nothing and issues no call. Both are single-shot: once the
  status is COMMITTED or ABORTED, a commit throws the transaction-ended error without a
  store call.
\<close>

theorem C7_commit_rollback_transitions:
  "(status tx = ACTIVE \<and> \<not> now - startTime tx > timeout tx
      \<and> commitTransaction client (transactionId tx) = Inl e
      \<longrightarrow> commit client tx now
            = (Inl e, tx\<lparr>status := ABORTED\<rparr>, [CommitTransaction (transactionId tx)]))
   \<and> (status tx = ACTIVE \<and> \<not> now - startTime tx > timeout tx
      \<and> commitTransaction client (transactionId tx) = Inr ()
      \<longrightarrow> commit client tx now
            = (Inr (), tx\<lparr>status := COMMITTED\<rparr>, [CommitTransaction (transactionId tx)]))
   \<and> (status tx = ACTIVE
      \<longrightarrow> rollback client tx
            = (abortTransaction client (transactionId tx), tx\<lparr>status := ABORTED\<rparr>,
               [AbortTransaction (transactionId tx)]))
   \<and> (status tx \<noteq> ACTIVE \<longrightarrow> rollback client tx = (Inr (), tx, []))
   \<and> (status tx = COMMITTED \<or> status tx = ABORTED
      \<longrightarrow> commit client tx now = (Inl TransactionEnded, tx, []))"
proof (intro conjI impI)
  assume "status tx = ACTIVE \<and> \<not> now - startTime tx > timeout tx
            \<and> commitTransaction client (transactionId tx) = Inl e"
  then show "commit client tx now
               = (Inl e, tx\<lparr>status := ABORTED\<rparr>, [CommitTransaction (transactionId tx)])"
    by (simp add: commit_def ensureActive_in_time)
next
  assume "status tx = ACTIVE \<and> \<not> now - startTime tx > timeout tx
            \<and> commitTransaction client (transactionId tx) = Inr ()"
  then show "commit client tx now
               = (Inr (), tx\<lparr>status := COMMITTED\<rparr>, [CommitTransaction (transactionId tx)])"
    by (simp add: commit_def ensureActive_in_time)
next
  assume "status tx = ACTIVE"
  then show "rollback client tx
               = (abortTransaction client (transactionId tx), tx\<lparr>status := ABORTED\<rparr>,
                  [AbortTransaction (transactionId tx)])"
    by (simp add: rollback_def split: sum.split)
next
  assume "status tx \<noteq> ACTIVE"
  then show "rollback client tx = (Inr (), tx, [])"
    by (simp add: rollback_def)
next
  assume "status tx = COMMITTED \<or> status tx = ABORTED"
  then show "commit client tx now = (Inl TransactionEnded, tx, [])"
    by (simp add: commit_def ensureActive_ended)
qed

lemma failing_client_fields:
  "commitTransaction failing_client t = Inl (StoreError ''OTSTimeout'' ''commit failed'')"
  "abortTransaction failing_client t = Inl (StoreError ''OTSTimeout'' ''abort failed'')"
  by (simp_all add: failing_client_def)

theorem C7_commit_rollback_witness:
  "status sample_tx = ACTIVE \<and> \<not> 2000 - startTime sample_tx > timeout sample_tx
   \<and> commitTransaction failing_client (transactionId sample_tx)
       = Inl (StoreError ''OTSTimeout'' ''commit failed'')
   \<and> commit failing_client sample_tx 2000
       = (Inl (StoreError ''OTSTimeout'' ''commit failed''), sample_tx\<lparr>status := ABORTED\<rparr>,
          [CommitTransaction ''tx-1''])
   \<and> commitTransaction sample_client (transactionId sample_tx) = Inr ()
   \<and> commit sample_client sample_tx 2000
       = (Inr (), sample_tx\<lparr>status := COMMITTED\<rparr>, [CommitTransaction ''tx-1''])
   \<and> rollback failing_client sample_tx
       = (Inl (StoreError ''OTSTimeout'' ''abort failed''), sample_tx\<lparr>status := ABORTED\<rparr>,
          [AbortTransaction ''tx-1''])
   \<and> status (sample_tx\<lparr>status := ABORTED\<rparr>) \<noteq> ACTIVE
   \<and> rollback failing_client (sample_tx\<lparr>status := ABORTED\<rparr>)
       = (Inr (), sample_tx\<lparr>status := ABORTED\<rparr>, [])
   \<and> commit failing_client (sample_tx\<lparr>status := ABORTED\<rparr>) 2001
       = (Inl TransactionEnded, sample_tx\<lparr>status := ABORTED\<rparr>, [])"
  using C7_commit_rollback_transitions
          [of sample_tx 2000 failing_client "StoreError ''OTSTimeout'' ''commit failed''"]
        C7_commit_rollback_transitions
          [of "sample_tx\<lparr>status := ABORTED\<rparr>" 2001 failing_client TransactionEnded]
        C7_commit_rollback_transitions [of sample_tx 2000 sample_client TransactionEnded]
  by (simp add: sample_tx_fields failing_client_fields sample_client_def)

lemma sample_em_fields:
  "getEntityMetadata sample_em ''Order'' = Inr sample_metadata"
  "convertPrimaryKeysToTablestore sample_em pk md
     = em_convertPrimaryKeysToTablestore (\<lambda>v column. Plain v) pk md False"
  "isRowNotFoundError sample_em TransactionEnded = False"
  by (simp_all add: sample_em_def)

lemma sample_client_fields:
  "getRow sample_client p = Inr None" "batchWriteRow sample_client b = Inr ()"
  "putRow sample_client q = Inr ()"
  by (simp_all add: sample_client_def)

text \<open>
  Save, update and delete do check the partition key before anything is sent: when
  \<open>validatePartitionKey\<close> throws, they throw its error and issue no call.
\<close>

lemma save_update_delete_check_partition:
  assumes "status tx = ACTIVE" and "\<not> now - startTime tx > timeout tx"
    and "getEntityMetadata em cls = Inr metadata"
    and "validatePartitionKey tx obj metadata = Inl e"
  shows "save em client tx now cls obj oc = (Inl e, tx, [])"
    and "update em client tx now cls obj pe = (Inl e, tx, [])"
    and "delete em client tx now cls obj oc = (Inl e, tx, [])"
  using assms by (simp_all add: save_def update_def delete_def ensureActive_in_time)

text \<open>
  C5 (defect). The transaction of the sample is bound to the partition \<open>userId = u1\<close>.
  A \<open>findOne\<close> for the key \<open>(u2, o1)\<close> and a \<open>batchWrite\<close> of a put for the key
  \<open>(u2, o9)\<close> both pass: each issues its call to the store and returns normally, where
  \<open>save\<close> with the same key throws the partition mismatch and issues nothing.
\<close>

theorem C5_findOne_batchWrite_skip_partition_check:
  "findOne sample_em sample_client sample_tx 2000 ''Order''
       [(''userId'', JStr ''u2''), (''orderId'', JStr ''o1'')]
     = (Inr None, sample_tx,
        [GetRow \<lparr> gr_tableName = ''orders'',
                  gr_primaryKey = [(''userId'', Plain (JStr ''u2'')),
                                   (''orderId'', Plain (JStr ''o1''))],
                  gr_columnsToGet = None, gr_columnFilter = None,
                  gr_transactionId = Some ''tx-1'' \<rparr>])
   \<and> batchWrite sample_client sample_tx 2000
       [\<lparr> bw_tableName = ''orders'',
          bw_request = JObj [(''type'', JStr ''PUT''),
                             (''primaryKey'', JArr [JObj [(''userId'', JStr ''u2'')],
                                                    JObj [(''orderId'', JStr ''o9'')]])] \<rparr>]
     = (Inr (), sample_tx,
        [BatchWriteRow
           \<lparr> bwr_tables =
               [(''orders'',
                 [JObj [(''type'', JStr ''PUT''),
                        (''primaryKey'', JArr [JObj [(''userId'', JStr ''u2'')],
                                               JObj [(''orderId'', JStr ''o9'')]])]])],
             bwr_transactionId = ''tx-1'' \<rparr>])
   \<and> save sample_em sample_client sample_tx 2000 ''Order''
       [(''userId'', JStr ''u2''), (''orderId'', JStr ''o1'')] None
     = (Inl (PartitionKeyMismatch (JStr ''u2'') (JStr ''u1'')), sample_tx, [])"
proof -
  have active: "ensureActive sample_tx 2000 = (Inr (), sample_tx)"
    by (rule ensureActive_in_time) (simp_all add: sample_tx_fields)
  have mismatch:
    "validatePartitionKey sample_tx [(''userId'', JStr ''u2''), (''orderId'', JStr ''o1'')]
       sample_metadata = Inl (PartitionKeyMismatch (JStr ''u2'') (JStr ''u1''))"
    by (simp add: validatePartitionKey_def sample_metadata_def transactionPartitionValue_def
          sample_tx_fields get_prop_def)
  have key:
    "em_convertPrimaryKeysToTablestore (\<lambda>v column. Plain v)
       [(''userId'', JStr ''u2''), (''orderId'', JStr ''o1'')] sample_metadata False
     = Inr [(''userId'', Plain (JStr ''u2'')), (''orderId'', Plain (JStr ''o1''))]"
    by (simp add: em_convertPrimaryKeysToTablestore_def sample_metadata_def get_prop_def)
  have "tableName sample_metadata = ''orders''"
    by (simp add: sample_metadata_def)
  then show ?thesis
    by (simp add: findOne_def batchWrite_def save_def active mismatch key sample_em_fields
          sample_client_fields sample_tx_fields)
qed

section \<open>Properties of the query planner\<close>

lemma autoCompletePartialPrimaryKey_loop_cases:
  "fst (autoCompletePartialPrimaryKey_loop partialKeys True ASC cols found)
     = map (\<lambda>column.
              if has_value (get_prop partialKeys (propertyName column))
              then (propertyName column,
                    qb_convertValueToTablestore (get_prop partialKeys (propertyName column)) column)
              else (propertyName column, INF_MIN)) cols"
  "fst (autoCompletePartialPrimaryKey_loop partialKeys True DESC cols found)
     = map (\<lambda>column.
              if has_value (get_prop partialKeys (propertyName column))
              then (propertyName column,
                    qb_convertValueToTablestore (get_prop partialKeys (propertyName column)) column)
              else (propertyName column, INF_MAX)) cols"
  "fst (autoCompletePartialPrimaryKey_loop partialKeys False ASC cols found)
     = map (\<lambda>column.
              if has_value (get_prop partialKeys (propertyName column))
              then (propertyName column,
                    qb_convertValueToTablestore (get_prop partialKeys (propertyName column)) column)
              else (propertyName column, INF_MAX)) cols"
  "fst (autoCompletePartialPrimaryKey_loop partialKeys False DESC cols found)
     = map (\<lambda>column.
              if has_value (get_prop partialKeys (propertyName column))
              then (propertyName column,
                    qb_convertValueToTablestore (get_prop partialKeys (propertyName column)) column)
              else (propertyName column, INF_MIN)) cols"
  by (induction cols arbitrary: found; simp add: Let_def split_beta)+

lemma autoCompletePartialPrimaryKey_loop_map:
  "fst (autoCompletePartialPrimaryKey_loop partialKeys isStart direction cols found)
     = map (\<lambda>column.
              if has_value (get_prop partialKeys (propertyName column))
              then (propertyName column,
                    qb_convertValueToTablestore (get_prop partialKeys (propertyName column)) column)
              else (propertyName column,
                    if isStart = (direction = ASC) then INF_MIN else INF_MAX))
         cols"
  by (cases isStart; cases direction) (simp_all add: autoCompletePartialPrimaryKey_loop_cases)

lemma autoCompletePartialPrimaryKey_length:
  "length (autoCompletePartialPrimaryKey qb partialKeys isStart direction)
     = length (primaryColumns (qb_metadata qb))"
  by (simp add: autoCompletePartialPrimaryKey_def autoCompletePartialPrimaryKey_loop_map)

lemma autoCompletePartialPrimaryKey_nth:
  assumes "i < length (primaryColumns (qb_metadata qb))"
  shows "autoCompletePartialPrimaryKey qb partialKeys isStart direction ! i
     = (let column = primaryColumns (qb_metadata qb) ! i;
            v = get_prop partialKeys (propertyName column)
        in if has_value v then (propertyName column, qb_convertValueToTablestore v column)
           else (propertyName column, if isStart = (direction = ASC) then INF_MIN else INF_MAX))"
  using assms
  by (simp add: autoCompletePartialPrimaryKey_def autoCompletePartialPrimaryKey_loop_map Let_def)

lemma getDirection_getOrderDirection:
  "getDirection qb = (if getOrderDirection qb = ASC then FORWARD else BACKWARD)"
  by (simp add: getDirection_def getOrderDirection_def split: list.split prod.split)

lemma get_prop_absent:
  "name \<notin> set (object_keys obj) \<Longrightarrow> get_prop obj name = JUndefined"
  by (simp add: get_prop_def object_keys_def map_of_eq_None_iff [THEN iffD2])

lemma has_value_is_key:
  "has_value (get_prop obj name) \<Longrightarrow> name \<in> set (object_keys obj)"
  using get_prop_absent by fastforce

lemma executeGetRangeQuery_calls:
  "snd (snd (executeGetRangeQuery em client qb)) = [GetRange (getRange_params qb)]"
  by (simp add: executeGetRangeQuery_def split: sum.split prod.split)

lemma convertPartialPrimaryKeyToRange_fields:
  "qb_metadata (convertPartialPrimaryKeyToRange qb) = qb_metadata qb"
  "qb_orderBy (convertPartialPrimaryKeyToRange qb) = qb_orderBy qb"
  "qb_limit (convertPartialPrimaryKeyToRange qb) = qb_limit qb"
  "qb_columnCondition (convertPartialPrimaryKeyToRange qb) = qb_columnCondition qb"
  "qb_startPrimaryKey qb = None \<Longrightarrow>
     qb_startPrimaryKey (convertPartialPrimaryKeyToRange qb)
       = Some (autoCompletePartialPrimaryKey qb (qb_where qb) True (getOrderDirection qb))"
  "qb_endPrimaryKey qb = None \<Longrightarrow>
     qb_endPrimaryKey (convertPartialPrimaryKeyToRange qb)
       = Some (autoCompletePartialPrimaryKey qb (qb_where qb) False (getOrderDirection qb))"
  by (simp_all add: convertPartialPrimaryKeyToRange_def Let_def autoCompletePartialPrimaryKey_def
        split: option.split)


lemma getRange_params_fresh:
  assumes "qb_startPrimaryKey qb = None" and "qb_endPrimaryKey qb = None"
  shows "rg_inclusiveStartPrimaryKey (getRange_params qb)
           = (if getOrderDirection qb = ASC then buildMinPrimaryKey qb else buildMaxPrimaryKey qb)"
    and "rg_exclusiveEndPrimaryKey (getRange_params qb)
           = (if getOrderDirection qb = ASC then buildMaxPrimaryKey qb else buildMinPrimaryKey qb)"
  using assms by (simp_all add: getRange_params_def Let_def getDirection_getOrderDirection)

lemma getRange_params_converted:
  assumes "qb_startPrimaryKey qb = None" and "qb_endPrimaryKey qb = None"
  shows "rg_inclusiveStartPrimaryKey (getRange_params (convertPartialPrimaryKeyToRange qb))
           = autoCompletePartialPrimaryKey qb (qb_where qb) True (getOrderDirection qb)"
    and "rg_exclusiveEndPrimaryKey (getRange_params (convertPartialPrimaryKeyToRange qb))
           = autoCompletePartialPrimaryKey qb (qb_where qb) False (getOrderDirection qb)"
  using assms
  by (simp_all add: getRange_params_def Let_def convertPartialPrimaryKeyToRange_fields)

lemma getRange_params_direction:
  "rg_direction (getRange_params qb) = (if getOrderDirection qb = ASC then FORWARD else BACKWARD)"
  by (simp add: getRange_params_def Let_def getDirection_getOrderDirection)

lemma getOrderDirection_converted:
  "getOrderDirection (convertPartialPrimaryKeyToRange qb) = getOrderDirection qb"
  by (simp add: getOrderDirection_def convertPartialPrimaryKeyToRange_fields)

text \<open>
  Where the boundaries of a range scan carry the sentinels. Take a schema with n
  primary-key columns and a predicate that gives a value to the first m of them, m < n,
  and none to column m; some primary-key column is not named by the predicate at all,
  and no boundary has been set by hand. Then the query issues one range scan. Its
  direction is forward for ASC and backward for DESC. Both boundaries have n entries. At
  position m the start boundary holds INF_MIN for ASC and INF_MAX for DESC, and the end
  boundary holds the opposite sentinel. Each of the first m columns appears at its
  position, in both boundaries, with its value as \<open>convertValueToTablestore\<close> passes it.
\<close>

lemma range_scan_boundaries:
  assumes "m < length (primaryColumns (qb_metadata qb))"
    and "\<forall>i<m. has_value (get_prop (qb_where qb)
                              (propertyName (primaryColumns (qb_metadata qb) ! i)))"
    and "\<not> has_value (get_prop (qb_where qb)
                        (propertyName (primaryColumns (qb_metadata qb) ! m)))"
    and "\<not> isExactPrimaryKeyQuery qb"
    and "qb_startPrimaryKey qb = None" and "qb_endPrimaryKey qb = None"
  shows "\<exists>params.
           snd (snd (executeQuery em client qb)) = [GetRange params]
         \<and> rg_direction params = (if getOrderDirection qb = ASC then FORWARD else BACKWARD)
         \<and> length (rg_inclusiveStartPrimaryKey params) = length (primaryColumns (qb_metadata qb))
         \<and> length (rg_exclusiveEndPrimaryKey params) = length (primaryColumns (qb_metadata qb))
         \<and> rg_inclusiveStartPrimaryKey params ! m
             = (propertyName (primaryColumns (qb_metadata qb) ! m),
                if getOrderDirection qb = ASC then INF_MIN else INF_MAX)
         \<and> rg_exclusiveEndPrimaryKey params ! m
             = (propertyName (primaryColumns (qb_metadata qb) ! m),
                if getOrderDirection qb = ASC then INF_MAX else INF_MIN)
         \<and> (\<forall>i<m.
               rg_inclusiveStartPrimaryKey params ! i
                 = (propertyName (primaryColumns (qb_metadata qb) ! i),
                    qb_convertValueToTablestore
                      (get_prop (qb_where qb) (propertyName (primaryColumns (qb_metadata qb) ! i)))
                      (primaryColumns (qb_metadata qb) ! i))
             \<and> rg_exclusiveEndPrimaryKey params ! i = rg_inclusiveStartPrimaryKey params ! i)"
proof -
  let ?pks = "primaryColumns (qb_metadata qb)"
  let ?w = "qb_where qb"
  let ?dir = "getOrderDirection qb"
  have m: "m < length ?pks" by fact
  have prefix: "\<forall>i<m. has_value (get_prop ?w (propertyName (?pks ! i)))" by fact
  have no_value: "\<not> has_value (get_prop ?w (propertyName (?pks ! m)))" by fact
  have not_exact: "\<not> isExactPrimaryKeyQuery qb" by fact
  have completed:
    "autoCompletePartialPrimaryKey qb ?w isStart direction ! m
       = (propertyName (?pks ! m), if isStart = (direction = ASC) then INF_MIN else INF_MAX)"
    for isStart direction
    using no_value by (simp add: autoCompletePartialPrimaryKey_nth [OF m] Let_def)
  show ?thesis
  proof (cases "isPartialPrimaryKeyQuery qb")
    case True
    let ?qb' = "convertPartialPrimaryKeyToRange qb"
    have calls: "snd (snd (executeQuery em client qb)) = [GetRange (getRange_params ?qb')]"
      using True not_exact by (simp add: executeQuery_def executeGetRangeQuery_calls)
    have start: "rg_inclusiveStartPrimaryKey (getRange_params ?qb')
                   = autoCompletePartialPrimaryKey qb ?w True ?dir"
      and "end": "rg_exclusiveEndPrimaryKey (getRange_params ?qb')
                   = autoCompletePartialPrimaryKey qb ?w False ?dir"
      using assms(5,6) by (rule getRange_params_converted)+
    have direction: "rg_direction (getRange_params ?qb')
                       = (if ?dir = ASC then FORWARD else BACKWARD)"
      by (simp add: getRange_params_direction getOrderDirection_converted)
    have bound: "\<forall>i<m.
          rg_inclusiveStartPrimaryKey (getRange_params ?qb') ! i
            = (propertyName (?pks ! i),
               qb_convertValueToTablestore (get_prop ?w (propertyName (?pks ! i))) (?pks ! i))
        \<and> rg_exclusiveEndPrimaryKey (getRange_params ?qb') ! i
            = rg_inclusiveStartPrimaryKey (getRange_params ?qb') ! i"
      using m prefix by (simp add: start "end" autoCompletePartialPrimaryKey_nth Let_def)
    show ?thesis
      using calls direction bound
      by (intro exI [of _ "getRange_params ?qb'"])
         (simp add: start "end" autoCompletePartialPrimaryKey_length completed)
  next
    case False
    have calls: "snd (snd (executeQuery em client qb)) = [GetRange (getRange_params qb)]"
      using False not_exact by (simp add: executeQuery_def executeGetRangeQuery_calls)
    have start: "rg_inclusiveStartPrimaryKey (getRange_params qb)
                   = (if ?dir = ASC then buildMinPrimaryKey qb else buildMaxPrimaryKey qb)"
      and "end": "rg_exclusiveEndPrimaryKey (getRange_params qb)
                   = (if ?dir = ASC then buildMaxPrimaryKey qb else buildMinPrimaryKey qb)"
      using assms(5,6) by (rule getRange_params_fresh)+
    have none_bound: "\<not> has_value (get_prop ?w (propertyName (?pks ! i)))"
      if "i < length ?pks" for i
    proof
      assume "has_value (get_prop ?w (propertyName (?pks ! i)))"
      then have "propertyName (?pks ! i) \<in> set (object_keys ?w)"
        by (rule has_value_is_key)
      moreover have "propertyName (?pks ! i) \<in> set (map propertyName ?pks)"
        using that by (metis length_map nth_map nth_mem)
      ultimately have "list_ex (\<lambda>key. key \<in> set (map propertyName ?pks)) (object_keys ?w)"
        by (auto simp add: list_ex_iff)
      with not_exact have "isPartialPrimaryKeyQuery qb"
        by (simp add: isPartialPrimaryKeyQuery_def isExactPrimaryKeyQuery_def)
      with False show False by simp
    qed
    have no_prefix: "m = 0"
    proof (rule ccontr)
      assume "m \<noteq> 0"
      then have "has_value (get_prop ?w (propertyName (?pks ! 0)))"
        using prefix by simp
      moreover have "0 < length ?pks"
        using m by auto
      ultimately show False
        using none_bound by blast
    qed
    show ?thesis
      using calls m no_prefix
      by (intro exI [of _ "getRange_params qb"])
         (simp add: start "end" getRange_params_direction buildMinPrimaryKey_def
            buildMaxPrimaryKey_def)
  qed
qed

lemma sample_metadata_fields:
  "tableName sample_metadata = ''orders''"
  "primaryColumns sample_metadata
     = [\<lparr>propertyName = ''userId'', isPrimary = True\<rparr>,
        \<lparr>propertyName = ''orderId'', isPrimary = True\<rparr>]"
  by (simp_all add: sample_metadata_def)

lemma sample_partial_query_fields:
  "qb_metadata sample_partial_query = sample_metadata"
  "qb_where sample_partial_query = [(''userId'', JStr ''u1'')]"
  "qb_orderBy sample_partial_query = [(''userId'', DESC)]"
  "qb_startPrimaryKey sample_partial_query = None"
  "qb_endPrimaryKey sample_partial_query = None"
  by (simp_all add: sample_partial_query_def orderBy_def where_object_def sample_builder_def
        sample_metadata_fields)

text \<open>
  The descending query for \<open>{userId: 'u1'}\<close> scans backward from
  \<open>[userId = 'u1', orderId = INF_MAX]\<close> to \<open>[userId = 'u1', orderId = INF_MIN]\<close>.
\<close>

lemma range_scan_boundaries_sample:
  "1 < length (primaryColumns (qb_metadata sample_partial_query))
   \<and> has_value (get_prop (qb_where sample_partial_query) ''userId'')
   \<and> \<not> has_value (get_prop (qb_where sample_partial_query) ''orderId'')
   \<and> \<not> isExactPrimaryKeyQuery sample_partial_query
   \<and> getOrderDirection sample_partial_query = DESC
   \<and> (\<exists>params.
         snd (snd (executeQuery sample_em sample_client sample_partial_query)) = [GetRange params]
       \<and> rg_direction params = BACKWARD
       \<and> rg_inclusiveStartPrimaryKey params ! 1 = (''orderId'', INF_MAX)
       \<and> rg_exclusiveEndPrimaryKey params ! 1 = (''orderId'', INF_MIN)
       \<and> rg_inclusiveStartPrimaryKey params ! 0 = (''userId'', Plain (JStr ''u1''))
       \<and> rg_exclusiveEndPrimaryKey params ! 0 = (''userId'', Plain (JStr ''u1'')))"
proof -
  have n: "1 < length (primaryColumns (qb_metadata sample_partial_query))"
    by (simp add: sample_partial_query_fields sample_metadata_fields)
  have prefix: "\<forall>i<1. has_value (get_prop (qb_where sample_partial_query)
                  (propertyName (primaryColumns (qb_metadata sample_partial_query) ! i)))"
    by (simp add: sample_partial_query_fields sample_metadata_fields get_prop_def)
  have no_value: "\<not> has_value (get_prop (qb_where sample_partial_query)
                     (propertyName (primaryColumns (qb_metadata sample_partial_query) ! 1)))"
    by (simp add: sample_partial_query_fields sample_metadata_fields get_prop_def)
  have not_exact: "\<not> isExactPrimaryKeyQuery sample_partial_query"
    by (simp add: isExactPrimaryKeyQuery_def sample_partial_query_fields sample_metadata_fields
          object_keys_def)
  have desc: "getOrderDirection sample_partial_query = DESC"
    by (simp add: getOrderDirection_def sample_partial_query_fields)
  obtain params where
    "snd (snd (executeQuery sample_em sample_client sample_partial_query)) = [GetRange params]"
    "rg_direction params = BACKWARD"
    "rg_inclusiveStartPrimaryKey params ! 1 = (''orderId'', INF_MAX)"
    "rg_exclusiveEndPrimaryKey params ! 1 = (''orderId'', INF_MIN)"
    "rg_inclusiveStartPrimaryKey params ! 0 = (''userId'', Plain (JStr ''u1''))"
    "rg_exclusiveEndPrimaryKey params ! 0 = (''userId'', Plain (JStr ''u1''))"
    using range_scan_boundaries [OF n prefix no_value not_exact, of sample_em sample_client]
    by (fastforce simp add: desc sample_partial_query_fields sample_metadata_fields get_prop_def)
  then show ?thesis
    using n prefix no_value not_exact desc
    by (auto simp add: sample_partial_query_fields sample_metadata_fields)
qed

text \<open>
  C1 (defect). For the key \<open>(userId, orderId)\<close> the predicate
  \<open>{userId: 'u1', orderId: undefined}\<close> binds the first of the two columns: \<open>orderId\<close>
  has no value. The boundary function completes the key with the sentinels, to
  \<open>[userId = 'u1', orderId = INF_MIN]\<close> at the start and
  \<open>[userId = 'u1', orderId = INF_MAX]\<close> at the end. The query never gets there:
  \<open>isExactPrimaryKeyQuery\<close> looks for the names of the key columns among the properties
  of the predicate, finds both, and the query goes out as one \<open>getRow\<close> with the
  one-column key \<open>[userId = 'u1']\<close>. No range scan is issued and no sentinel is sent.
  \<open>null\<close> in the place of \<open>undefined\<close> fares the same. The entity manager's \<open>findOne\<close>,
  given the same key, asks for values (\<open>isCompletePrimaryKey\<close>) and scans the range
  between the two boundaries above.
\<close>

theorem C1_unbound_named_column_takes_point_lookup:
  "has_value (get_prop (qb_where sample_unbound_query) ''userId'')
   \<and> \<not> has_value (get_prop (qb_where sample_unbound_query) ''orderId'')
   \<and> autoCompletePartialPrimaryKey sample_unbound_query (qb_where sample_unbound_query) True ASC
       = [(''userId'', Plain (JStr ''u1'')), (''orderId'', INF_MIN)]
   \<and> autoCompletePartialPrimaryKey sample_unbound_query (qb_where sample_unbound_query) False ASC
       = [(''userId'', Plain (JStr ''u1'')), (''orderId'', INF_MAX)]
   \<and> isExactPrimaryKeyQuery sample_unbound_query
   \<and> snd (snd (executeQuery sample_em sample_client sample_unbound_query))
       = [GetRow \<lparr> gr_tableName = ''orders'',
                   gr_primaryKey = [(''userId'', Plain (JStr ''u1''))],
                   gr_columnsToGet = None, gr_columnFilter = None, gr_transactionId = None \<rparr>]
   \<and> snd (snd (executeQuery sample_em sample_client
                  (where_object [(''userId'', JStr ''u1''), (''orderId'', JNull)] sample_builder)))
       = [GetRow \<lparr> gr_tableName = ''orders'',
                   gr_primaryKey = [(''userId'', Plain (JStr ''u1''))],
                   gr_columnsToGet = None, gr_columnFilter = None, gr_transactionId = None \<rparr>]
   \<and> em_isCompletePrimaryKey [(''userId'', JStr ''u1''), (''orderId'', JUndefined)]
         sample_metadata = False
   \<and> snd (em_findOne sample_em (\<lambda>v column. Plain v) sample_client ''Order''
             [(''userId'', JStr ''u1''), (''orderId'', JUndefined)])
       = [GetRange \<lparr> rg_tableName = ''orders'',
                     rg_inclusiveStartPrimaryKey
                       = [(''userId'', Plain (JStr ''u1'')), (''orderId'', INF_MIN)],
                     rg_exclusiveEndPrimaryKey
                       = [(''userId'', Plain (JStr ''u1'')), (''orderId'', INF_MAX)],
                     rg_limit = 1, rg_direction = FORWARD,
                     rg_columnsToGet = None, rg_columnFilter = None \<rparr>]"
  by code_simp

text \<open>
  C2 (defect). For the key \<open>(userId, orderId)\<close> and the predicate \<open>{orderId: 'o1'}\<close>,
  which binds a column after the first missing one, the boundaries keep the value of
  \<open>orderId\<close> behind the sentinel of \<open>userId\<close>, in the builder and in the entity manager
  alike. The builder's loop does set its flag \<open>foundPartialKey\<close> at \<open>userId\<close>.
\<close>

theorem C2_value_after_missing_column_is_emitted:
  "autoCompletePartialPrimaryKey sample_builder [(''orderId'', JStr ''o1'')] True ASC
     = [(''userId'', INF_MIN), (''orderId'', Plain (JStr ''o1''))]
   \<and> autoCompletePartialPrimaryKey sample_builder [(''orderId'', JStr ''o1'')] False ASC
     = [(''userId'', INF_MAX), (''orderId'', Plain (JStr ''o1''))]
   \<and> snd (autoCompletePartialPrimaryKey_loop [(''orderId'', JStr ''o1'')] True ASC
            (primaryColumns sample_metadata) False) = True
   \<and> em_autoCompletePartialPrimaryKey (\<lambda>v column. Plain v) [(''orderId'', JStr ''o1'')]
       sample_metadata True
     = [(''userId'', INF_MIN), (''orderId'', Plain (JStr ''o1''))]
   \<and> snd (snd (executeQuery sample_em sample_client
                  (where_object [(''orderId'', JStr ''o1'')] sample_builder)))
     = [GetRange \<lparr> rg_tableName = ''orders'',
                    rg_inclusiveStartPrimaryKey =
                      [(''userId'', INF_MIN), (''orderId'', Plain (JStr ''o1''))],
                    rg_exclusiveEndPrimaryKey =
                      [(''userId'', INF_MAX), (''orderId'', Plain (JStr ''o1''))],
                    rg_limit = 100, rg_direction = FORWARD, rg_columnsToGet = None,
                    rg_columnFilter = None \<rparr>]"
  by (simp add: autoCompletePartialPrimaryKey_def em_autoCompletePartialPrimaryKey_def
        sample_builder_def sample_metadata_def get_prop_def executeQuery_def
        isExactPrimaryKeyQuery_def isPartialPrimaryKeyQuery_def object_keys_def where_object_def
        executeGetRangeQuery_def getRange_params_def convertPartialPrimaryKeyToRange_def
        getDirection_def getOrderDirection_def columnsToGet_of_def sample_client_def)

lemma executeGetRowQuery_calls:
  "snd (snd (executeGetRowQuery em client qb)) = [GetRow (getRow_params qb)]"
  by (simp add: executeGetRowQuery_def split: sum.split option.split)

lemma all_bound_is_exact:
  assumes "\<forall>column \<in> set (primaryColumns (qb_metadata qb)).
             has_value (get_prop (qb_where qb) (propertyName column))"
  shows "isExactPrimaryKeyQuery qb"
  using assms by (auto simp add: isExactPrimaryKeyQuery_def list_all_iff has_value_is_key)

text \<open>
  C6. When the predicate binds every primary-key column, the query issues exactly one
  call, a point read. Its request carries no column filter; its key is the list of all
  primary-key columns with their converted values. Setting any filter on the builder
  changes neither the request nor the result. When the store returns a row (with a
  primary key), the result is that one row converted, whatever the filter is.
\<close>

theorem C6_full_key_point_lookup_ignores_filter:
  assumes "\<forall>column \<in> set (primaryColumns (qb_metadata qb)).
             has_value (get_prop (qb_where qb) (propertyName column))"
  shows "snd (snd (executeQuery em client qb)) = [GetRow (getRow_params qb)]
       \<and> gr_columnFilter (getRow_params qb) = None
       \<and> gr_primaryKey (getRow_params qb)
           = map (\<lambda>column. (propertyName column,
                             qb_convertValueToTablestore
                               (get_prop (qb_where qb) (propertyName column)) column))
               (primaryColumns (qb_metadata qb))
       \<and> (\<forall>f. getRow_params (qb\<lparr>qb_columnCondition := f\<rparr>) = getRow_params qb
              \<and> snd (snd (executeQuery em client (qb\<lparr>qb_columnCondition := f\<rparr>)))
                  = snd (snd (executeQuery em client qb))
              \<and> fst (executeQuery em client (qb\<lparr>qb_columnCondition := f\<rparr>))
                  = fst (executeQuery em client qb))
       \<and> (\<forall>row. getRow client (getRow_params qb) = Inr (Some row) \<and> row_primaryKey row \<noteq> None
              \<longrightarrow> fst (executeQuery em client qb)
                    = Inr \<lparr>entities =
                             [convertTablestoreToEntity em row (qb_entityClass qb) (qb_metadata qb)],
                           nextStartPrimaryKey = None\<rparr>)"
proof -
  have exact: "isExactPrimaryKeyQuery qb"
    using assms by (rule all_bound_is_exact)
  have exact_f: "isExactPrimaryKeyQuery (qb\<lparr>qb_columnCondition := f\<rparr>)" for f
    using exact by (simp add: isExactPrimaryKeyQuery_def)
  have run: "executeQuery em client q = executeGetRowQuery em client q"
    if "isExactPrimaryKeyQuery q" for q
    using that by (simp add: executeQuery_def)
  have params_f: "getRow_params (qb\<lparr>qb_columnCondition := f\<rparr>) = getRow_params qb" for f
    by (simp add: getRow_params_def qb_convertPrimaryKeysToTablestore_def columnsToGet_of_def)
  have key: "gr_primaryKey (getRow_params qb)
           = map (\<lambda>column. (propertyName column,
                             qb_convertValueToTablestore
                               (get_prop (qb_where qb) (propertyName column)) column))
               (primaryColumns (qb_metadata qb))"
    using assms by (simp add: getRow_params_def qb_convertPrimaryKeysToTablestore_def)
  have result_f: "fst (executeGetRowQuery em client (qb\<lparr>qb_columnCondition := f\<rparr>))
                    = fst (executeGetRowQuery em client qb)" for f
    by (simp add: executeGetRowQuery_def params_f split: sum.split option.split)
  have row: "fst (executeGetRowQuery em client qb)
               = Inr \<lparr>entities =
                        [convertTablestoreToEntity em row (qb_entityClass qb) (qb_metadata qb)],
                      nextStartPrimaryKey = None\<rparr>"
    if "getRow client (getRow_params qb) = Inr (Some row) \<and> row_primaryKey row \<noteq> None" for row
    using that by (simp add: executeGetRowQuery_def)
  have no_filter: "gr_columnFilter (getRow_params qb) = None"
    by (simp add: getRow_params_def)
  show ?thesis
    using key row no_filter
    by (simp add: run [OF exact] run [OF exact_f] executeGetRowQuery_calls params_f result_f)
qed

lemma sample_exact_query_fields:
  "qb_metadata sample_exact_query = sample_metadata"
  "qb_where sample_exact_query = [(''userId'', JStr ''u1''), (''orderId'', JStr ''o1'')]"
  "qb_entityClass sample_exact_query = ''Order''"
  "qb_select sample_exact_query = []"
  "qb_columnCondition sample_exact_query
     = Some (SingleColumnCondition ''amount'' (Long 5) EQUAL True True)"
  by (simp_all add: sample_exact_query_def where_object_def sample_builder_def)

theorem C6_full_key_point_lookup_witness:
  "has_value (get_prop (qb_where sample_exact_query) ''userId'')
   \<and> has_value (get_prop (qb_where sample_exact_query) ''orderId'')
   \<and> qb_columnCondition sample_exact_query
       = Some (SingleColumnCondition ''amount'' (Long 5) EQUAL True True)
   \<and> snd (snd (executeQuery sample_em row_client sample_exact_query))
       = [GetRow \<lparr> gr_tableName = ''orders'',
                   gr_primaryKey = [(''userId'', Plain (JStr ''u1'')),
                                    (''orderId'', Plain (JStr ''o1''))],
                   gr_columnsToGet = None, gr_columnFilter = None, gr_transactionId = None \<rparr>]
   \<and> fst (executeQuery sample_em row_client sample_exact_query)
       = Inr \<lparr>entities = [[(''userId'', JStr ''u1''), (''orderId'', JStr ''o1''),
                            (''amount'', JNum 7)]],
              nextStartPrimaryKey = None\<rparr>"
proof -
  have bound: "\<forall>column \<in> set (primaryColumns (qb_metadata sample_exact_query)).
                 has_value (get_prop (qb_where sample_exact_query) (propertyName column))"
    by (simp add: sample_exact_query_fields sample_metadata_fields get_prop_def)
  have read: "getRow row_client p = Inr (Some sample_row)" for p
    by (simp add: row_client_def)
  have row: "row_primaryKey sample_row \<noteq> None"
    by (simp add: sample_row_def)
  have converted:
    "convertTablestoreToEntity sample_em sample_row ''Order'' sample_metadata
       = [(''userId'', JStr ''u1''), (''orderId'', JStr ''o1''), (''amount'', JNum 7)]"
    by (simp add: sample_em_def sample_row_def)
  show ?thesis
    using C6_full_key_point_lookup_ignores_filter [OF bound, of sample_em row_client] read row
    by (simp add: sample_exact_query_fields sample_metadata_fields get_prop_def converted
          getRow_params_def columnsToGet_of_def)
qed

text \<open>
  C10. A query that goes to a range scan (not every primary-key name is in the
  predicate) with no limit set, or with the limit 0, issues one range-scan request whose
  limit is 100. So when the store returns no more rows than a request's limit, the
  result has at most 100 rows.
\<close>

theorem C10_default_limit_is_100:
  assumes "\<not> isExactPrimaryKeyQuery qb"
    and "qb_limit qb = None \<or> qb_limit qb = Some 0"
  shows "(\<exists>params. snd (snd (executeQuery em client qb)) = [GetRange params]
                  \<and> rg_limit params = 100)
       \<and> ((\<forall>p rows next. getRange client p = Inr (rows, next) \<longrightarrow> int (length rows) \<le> rg_limit p)
          \<longrightarrow> (\<forall>r. fst (executeQuery em client qb) = Inr r \<longrightarrow> length (entities r) \<le> 100))"
proof -
  define q where "q = (if isPartialPrimaryKeyQuery qb then convertPartialPrimaryKeyToRange qb else qb)"
  have run: "executeQuery em client qb = executeGetRangeQuery em client q"
    using assms(1) by (simp add: executeQuery_def q_def)
  have "qb_limit q = qb_limit qb"
    by (simp add: q_def convertPartialPrimaryKeyToRange_fields)
  with assms(2) have hundred: "rg_limit (getRange_params q) = 100"
    by (auto simp add: getRange_params_def Let_def)
  have calls: "snd (snd (executeQuery em client qb)) = [GetRange (getRange_params q)]"
    by (simp add: run executeGetRangeQuery_calls)
  have rows: "length (entities r) \<le> 100"
    if honoured: "\<forall>p rows next. getRange client p = Inr (rows, next)
                    \<longrightarrow> int (length rows) \<le> rg_limit p"
      and result: "fst (executeQuery em client qb) = Inr r" for r
  proof (cases "getRange client (getRange_params q)")
    case (Inl e)
    with result show ?thesis
      by (simp add: run executeGetRangeQuery_def)
  next
    case (Inr answer)
    obtain rows "next" where answer: "answer = (rows, next)"
      by (cases answer)
    from honoured Inr answer hundred have "int (length rows) \<le> 100"
      by (metis)
    moreover from result Inr answer
    have "entities r = map (\<lambda>row. convertTablestoreToEntity em row (qb_entityClass q)
                                    (qb_metadata q)) rows"
      by (auto simp add: run executeGetRangeQuery_def)
    ultimately show ?thesis by simp
  qed
  show ?thesis
    using calls hundred rows by blast
qed

theorem C10_default_limit_witness:
  "\<not> isExactPrimaryKeyQuery sample_builder \<and> qb_limit sample_builder = None
   \<and> \<not> isExactPrimaryKeyQuery (limit 0 sample_partial_query)
   \<and> qb_limit (limit 0 sample_partial_query) = Some 0
   \<and> (\<exists>params. snd (snd (executeQuery sample_em sample_client sample_builder))
                   = [GetRange params] \<and> rg_limit params = 100)
   \<and> (\<exists>params. snd (snd (executeQuery sample_em sample_client (limit 0 sample_partial_query)))
                   = [GetRange params] \<and> rg_limit params = 100)"
proof -
  have full_scan: "\<not> isExactPrimaryKeyQuery sample_builder"
    by (simp add: isExactPrimaryKeyQuery_def sample_builder_def sample_metadata_fields
          object_keys_def)
  have no_limit: "qb_limit sample_builder = None \<or> qb_limit sample_builder = Some 0"
    by (simp add: sample_builder_def)
  have partial: "\<not> isExactPrimaryKeyQuery (limit 0 sample_partial_query)"
    by (simp add: isExactPrimaryKeyQuery_def limit_def sample_partial_query_fields
          sample_metadata_fields object_keys_def)
  have zero: "qb_limit (limit 0 sample_partial_query) = None
                \<or> qb_limit (limit 0 sample_partial_query) = Some 0"
    by (simp add: limit_def)
  show ?thesis
    using C10_default_limit_is_100 [OF full_scan no_limit, of sample_em sample_client]
      C10_default_limit_is_100 [OF partial zero, of sample_em sample_client]
      full_scan partial
    by (simp add: sample_builder_def limit_def)
qed

section \<open>Properties of the filter factory\<close>

text \<open>
  C8. A comparison (equals, notEqual, greaterThan, greaterThanOrEqual, lessThan,
  lessThanOrEqual) on a field that is no column of the entity throws the
  filter-validation error naming the field, whatever the value and the options; \<open>and\<close>
  and \<open>or\<close> of no conditions throw a filter-validation error. Building a condition
  touches neither a builder nor the store: the functions have no client to call, and a
  builder's \<open>filter\<close> hands on the error without any request.
\<close>

theorem C8_filter_construction_validates:
  assumes "fieldName \<notin> set (map propertyName (columns metadata))"
  shows "createSingleCondition metadata fieldName v comparator options
           = Inl (FieldNotInEntity fieldName)
       \<and> equals metadata fieldName v options = Inl (FieldNotInEntity fieldName)
       \<and> notEqual metadata fieldName v options = Inl (FieldNotInEntity fieldName)
       \<and> greaterThan metadata fieldName v options = Inl (FieldNotInEntity fieldName)
       \<and> greaterThanOrEqual metadata fieldName v options = Inl (FieldNotInEntity fieldName)
       \<and> lessThan metadata fieldName v options = Inl (FieldNotInEntity fieldName)
       \<and> lessThanOrEqual metadata fieldName v options = Inl (FieldNotInEntity fieldName)
       \<and> is_filter_validation_error (FieldNotInEntity fieldName)
       \<and> and_conditions [] = Inl EmptyAnd \<and> is_filter_validation_error EmptyAnd
       \<and> or_conditions [] = Inl EmptyOr \<and> is_filter_validation_error EmptyOr
       \<and> filter_with (\<lambda>md. equals md fieldName v options) (qb\<lparr>qb_metadata := metadata\<rparr>)
           = Inl (FieldNotInEntity fieldName)
       \<and> filter_with (\<lambda>md. and_conditions []) qb = Inl EmptyAnd
       \<and> filter_with (\<lambda>md. or_conditions []) qb = Inl EmptyOr"
proof -
  have "find (\<lambda>col. propertyName col = fieldName) (columns metadata) = None"
    using assms by (auto simp add: find_None_iff)
  then have unknown: "createSingleCondition metadata fieldName v c options
                        = Inl (FieldNotInEntity fieldName)" for c
    by (simp add: createSingleCondition_def findColumnMetadata_def)
  show ?thesis
    by (simp add: unknown equals_def notEqual_def greaterThan_def greaterThanOrEqual_def
          lessThan_def lessThanOrEqual_def and_conditions_def or_conditions_def filter_with_def)
qed

theorem C8_filter_construction_witness:
  "''nickname'' \<notin> set (map propertyName (columns sample_metadata))
   \<and> equals sample_metadata ''nickname'' (Value (JStr ''x'')) None
       = Inl (FieldNotInEntity ''nickname'')
   \<and> and_conditions [] = Inl EmptyAnd
   \<and> or_conditions [] = Inl EmptyOr
   \<and> equals sample_metadata ''amount'' (Value (JNum 5)) None
       = Inr (SingleColumnCondition ''amount'' (Long 5) EQUAL True True)"
proof -
  have unknown: "''nickname'' \<notin> set (map propertyName (columns sample_metadata))"
    by (simp add: sample_metadata_def)
  have known: "equals sample_metadata ''amount'' (Value (JNum 5)) None
                 = Inr (SingleColumnCondition ''amount'' (Long 5) EQUAL True True)"
    by (simp add: equals_def createSingleCondition_def findColumnMetadata_def
          sample_metadata_def)
  show ?thesis
    using C8_filter_construction_validates
            [OF unknown, of "Value (JStr ''x'')" EQUAL None sample_builder] unknown known
    by simp
qed

section \<open>The runtime reads back what it wrote\<close>

subsection \<open>base64 round trip\<close>

lemma of_char_base64_char:
  "n < 64 \<Longrightarrow>
     (of_char (base64_char n) :: nat)
       = (if n < 26 then 65 + n else if n < 52 then 71 + n else if n < 62 then n - 4
          else if n = 62 then 43 else 47)"
  by (simp add: base64_char_def)

lemma unbase64_base64_char: "n < 64 \<Longrightarrow> unbase64 (base64_char n) = Some n"
  by (auto simp add: unbase64_def of_char_base64_char Let_def)

lemma base64_char_not_padding: "n < 64 \<Longrightarrow> base64_char n \<noteq> CHR ''=''"
proof
  assume "n < 64" and "base64_char n = CHR ''=''"
  then have "(of_char (base64_char n) :: nat) = 61" by simp
  with \<open>n < 64\<close> show False
    by (simp add: of_char_base64_char split: if_splits)
qed

lemma sextet_bounds:
  fixes x y z :: nat
  assumes "x < 256" "y < 256" "z < 256"
  shows "x div 4 < 64" "(x mod 4) * 16 + y div 16 < 64" "(y mod 16) * 4 + z div 64 < 64"
    "z mod 64 < 64" "(x mod 4) * 16 < 64" "(y mod 16) * 4 < 64"
proof -
  have "x mod 4 < 4" "y mod 16 < 16" by simp_all
  moreover have "y div 16 < 16" "z div 64 < 4" "x div 4 < 64"
    using assms by (simp_all add: less_mult_imp_div_less)
  ultimately show "x div 4 < 64" "(x mod 4) * 16 + y div 16 < 64"
    "(y mod 16) * 4 + z div 64 < 64" "z mod 64 < 64" "(x mod 4) * 16 < 64" "(y mod 16) * 4 < 64"
    by simp_all
qed

lemma sextet_bytes:
  fixes x y z :: nat
  assumes "x < 256" "y < 256" "z < 256"
  shows "(x div 4) * 4 + ((x mod 4) * 16 + y div 16) div 16 = x"
    and "(((x mod 4) * 16 + y div 16) mod 16) * 16 + ((y mod 16) * 4 + z div 64) div 4 = y"
    and "(((y mod 16) * 4 + z div 64) mod 4) * 64 + z mod 64 = z"
    and "(x div 4) * 4 + ((x mod 4) * 16) div 16 = x"
    and "(((x mod 4) * 16 + y div 16) mod 16) * 16 + ((y mod 16) * 4) div 4 = y"
proof -
  have small: "y div 16 < 16" "z div 64 < 4"
    using assms by (simp_all add: less_mult_imp_div_less)
  show "(x div 4) * 4 + ((x mod 4) * 16 + y div 16) div 16 = x"
    using small by simp
  show "(((x mod 4) * 16 + y div 16) mod 16) * 16 + ((y mod 16) * 4 + z div 64) div 4 = y"
    using small by simp
  show "(((y mod 16) * 4 + z div 64) mod 4) * 64 + z mod 64 = z"
    using small by simp
  show "(x div 4) * 4 + ((x mod 4) * 16) div 16 = x"
    by simp
  show "(((x mod 4) * 16 + y div 16) mod 16) * 16 + ((y mod 16) * 4) div 4 = y"
    using small by simp
qed


lemma base64_decode_digits:
  assumes "n1 < 64"
  shows "base64_decode (base64_char n1 # s)
           = sextets_to_bytes (n1 # List.map_filter unbase64 (takeWhile (\<lambda>c. c \<noteq> CHR ''='') s))"
  using assms
  by (simp add: base64_decode_def base64_char_not_padding unbase64_base64_char
        List.map_filter_simps)

lemma map_filter_digit:
  "n < 64 \<Longrightarrow>
     List.map_filter unbase64 (takeWhile (\<lambda>c. c \<noteq> CHR ''='') (base64_char n # s))
       = n # List.map_filter unbase64 (takeWhile (\<lambda>c. c \<noteq> CHR ''='') s)"
  by (simp add: base64_char_not_padding unbase64_base64_char List.map_filter_simps)

lemma map_filter_padding:
  "List.map_filter unbase64 (takeWhile (\<lambda>c. c \<noteq> CHR ''='') (CHR ''='' # s)) = []"
  by (simp add: List.map_filter_simps)

lemma sextets_to_bytes_group:
  fixes x y z :: nat
  assumes "x < 256" "y < 256" "z < 256"
  shows "sextets_to_bytes (x div 4 # ((x mod 4) * 16 + y div 16) # ((y mod 16) * 4 + z div 64)
                           # (z mod 64) # zs)
           = char_of x # char_of y # char_of z # sextets_to_bytes zs"
    and "sextets_to_bytes [x div 4, (x mod 4) * 16 + y div 16, (y mod 16) * 4]
           = [char_of x, char_of y]"
    and "sextets_to_bytes [x div 4, (x mod 4) * 16] = [char_of x]"
  by (simp_all only: sextets_to_bytes.simps sextet_bytes [OF assms])

text \<open>The digits that \<open>toString('base64')\<close> wrote decode to the bytes they came from.\<close>

lemma base64_decode_encoded: "base64_decode (Buffer_toString_base64 buf) = buf"
proof (induction buf rule: Buffer_toString_base64.induct)
  case (1 a b c rest)
  have bounds: "(of_char a :: nat) < 256" "(of_char b :: nat) < 256" "(of_char c :: nat) < 256"
    by simp_all
  have "base64_decode (Buffer_toString_base64 (a # b # c # rest))
          = sextets_to_bytes
              (of_char a div 4 # ((of_char a mod 4) * 16 + of_char b div 16)
               # ((of_char b mod 16) * 4 + of_char c div 64) # (of_char c mod 64)
               # List.map_filter unbase64
                   (takeWhile (\<lambda>c. c \<noteq> CHR ''='') (Buffer_toString_base64 rest)))"
    by (simp only: Buffer_toString_base64.simps base64_decode_def map_filter_digit
          sextet_bounds [OF bounds])
  also have "\<dots> = a # b # c # base64_decode (Buffer_toString_base64 rest)"
    by (simp only: sextets_to_bytes_group [OF bounds] char_of_char base64_decode_def)
  finally show ?case using 1 by simp
next
  case (2 a b)
  have bounds: "(of_char a :: nat) < 256" "(of_char b :: nat) < 256" "(0 :: nat) < 256"
    by simp_all
  have "base64_decode (Buffer_toString_base64 [a, b])
          = sextets_to_bytes [of_char a div 4, (of_char a mod 4) * 16 + of_char b div 16,
                              (of_char b mod 16) * 4]"
    by (simp only: Buffer_toString_base64.simps base64_decode_def map_filter_digit
          map_filter_padding sextet_bounds [OF bounds])
  then show ?case
    by (simp only: sextets_to_bytes_group [OF bounds] char_of_char)
next
  case (3 a)
  have bounds: "(of_char a :: nat) < 256" "(0 :: nat) < 256" "(0 :: nat) < 256"
    by simp_all
  have "base64_decode (Buffer_toString_base64 [a])
          = sextets_to_bytes [of_char a div 4, (of_char a mod 4) * 16]"
    by (simp only: Buffer_toString_base64.simps base64_decode_def map_filter_digit
          map_filter_padding sextet_bounds [OF bounds])
  then show ?case
    by (simp only: sextets_to_bytes_group [OF bounds] char_of_char)
next
  case 4
  show ?case by (simp add: base64_decode_def List.map_filter_simps)
qed


text \<open>What \<open>toString('base64')\<close> writes is ASCII, one code unit for each character.\<close>

lemma utf16_code_units_ascii:
  "list_all (\<lambda>c. (of_char c :: nat) < 128) s \<Longrightarrow> map char_of (utf16_code_units s) = s"
  by (induction s) simp_all

lemma base64_char_ascii: "n < 64 \<Longrightarrow> (of_char (base64_char n) :: nat) < 128"
  by (auto simp add: of_char_base64_char)

lemma Buffer_toString_base64_ascii:
  "list_all (\<lambda>c. (of_char c :: nat) < 128) (Buffer_toString_base64 buf)"
proof (induction buf rule: Buffer_toString_base64.induct)
  case (1 a b c rest)
  have bounds: "(of_char a :: nat) < 256" "(of_char b :: nat) < 256" "(of_char c :: nat) < 256"
    by simp_all
  show ?case
    using 1 by (simp add: base64_char_ascii sextet_bounds [OF bounds])
next
  case (2 a b)
  have bounds: "(of_char a :: nat) < 256" "(of_char b :: nat) < 256" "(0 :: nat) < 256"
    by simp_all
  show ?case
    by (simp add: base64_char_ascii sextet_bounds [OF bounds])
next
  case (3 a)
  have bounds: "(of_char a :: nat) < 256" "(0 :: nat) < 256" "(0 :: nat) < 256"
    by simp_all
  show ?case
    by (simp add: base64_char_ascii sextet_bounds [OF bounds])
next
  case 4
  show ?case by simp
qed

text \<open>Decoding what \<open>toString('base64')\<close> wrote gives the bytes back.\<close>

lemma base64_round_trip: "Buffer_from_base64 (Buffer_toString_base64 buf) = buf"
  by (simp add: Buffer_from_base64_def utf16_code_units_ascii [OF Buffer_toString_base64_ascii]
        base64_decode_encoded)


subsection \<open>UTF-8: well-formed text is read back unchanged\<close>

lemma utf8_decode_one:
  assumes "(of_char a :: nat) < 0x80"
  shows "utf8_decode utf8_initial (a # r) = a # utf8_decode utf8_initial r"
  using assms by (simp add: utf8_step_def utf8_first_def utf8_initial_def Let_def)

lemma utf8_decode_two:
  assumes "0xC2 \<le> (of_char a :: nat)" "(of_char a :: nat) \<le> 0xDF" "in_range b 0x80 0xBF"
  shows "utf8_decode utf8_initial (a # b # r) = a # b # utf8_decode utf8_initial r"
  using assms
  by (simp add: utf8_step_def utf8_first_def utf8_initial_def in_range_def Let_def)

lemma utf8_decode_three:
  assumes "0xE0 \<le> (of_char a :: nat)" "(of_char a :: nat) \<le> 0xEF"
    and "in_range b (if (of_char a :: nat) = 0xE0 then 0xA0 else 0x80)
           (if (of_char a :: nat) = 0xED then 0x9F else 0xBF)"
    and "in_range c 0x80 0xBF"
  shows "utf8_decode utf8_initial (a # b # c # r) = a # b # c # utf8_decode utf8_initial r"
  using assms
  by (simp add: utf8_step_def utf8_first_def utf8_initial_def in_range_def Let_def
        split: if_splits)

lemma utf8_decode_four:
  assumes "0xF0 \<le> (of_char a :: nat)" "(of_char a :: nat) \<le> 0xF4"
    and "in_range b (if (of_char a :: nat) = 0xF0 then 0x90 else 0x80)
           (if (of_char a :: nat) = 0xF4 then 0x8F else 0xBF)"
    and "in_range c 0x80 0xBF" and "in_range d 0x80 0xBF"
  shows "utf8_decode utf8_initial (a # b # c # d # r)
           = a # b # c # d # utf8_decode utf8_initial r"
  using assms
  by (simp add: utf8_step_def utf8_first_def utf8_initial_def in_range_def Let_def
        split: if_splits)


lemma utf8_valid_cases:
  assumes "utf8_valid (a # s)"
  obtains
    (one) "(of_char a :: nat) < 0x80" "utf8_valid s"
  | (two) b s1 where "s = b # s1" "0xC2 \<le> (of_char a :: nat)" "(of_char a :: nat) \<le> 0xDF"
      "in_range b 0x80 0xBF" "utf8_valid s1"
  | (three) b c s2 where "s = b # c # s2" "0xE0 \<le> (of_char a :: nat)" "(of_char a :: nat) \<le> 0xEF"
      "in_range b (if (of_char a :: nat) = 0xE0 then 0xA0 else 0x80)
         (if (of_char a :: nat) = 0xED then 0x9F else 0xBF)"
      "in_range c 0x80 0xBF" "utf8_valid s2"
  | (four) b c d s3 where "s = b # c # d # s3" "0xF0 \<le> (of_char a :: nat)"
      "(of_char a :: nat) \<le> 0xF4"
      "in_range b (if (of_char a :: nat) = 0xF0 then 0x90 else 0x80)
         (if (of_char a :: nat) = 0xF4 then 0x8F else 0xBF)"
      "in_range c 0x80 0xBF" "in_range d 0x80 0xBF" "utf8_valid s3"
proof (cases "(of_char a :: nat) < 0x80")
  case True
  with assms one show ?thesis by simp
next
  case False
  note not_ascii = this
  show ?thesis
  proof (cases "0xC2 \<le> (of_char a :: nat) \<and> (of_char a :: nat) \<le> 0xDF")
    case True
    with assms not_ascii two show ?thesis
      by (cases s) (simp_all add: Let_def)
  next
    case False
    note not_two = this
    show ?thesis
    proof (cases "0xE0 \<le> (of_char a :: nat) \<and> (of_char a :: nat) \<le> 0xEF")
      case True
      with assms not_ascii not_two have
        "case s of
           b # c # s2 \<Rightarrow>
             in_range b (if (of_char a :: nat) = 0xE0 then 0xA0 else 0x80)
               (if (of_char a :: nat) = 0xED then 0x9F else 0xBF)
             \<and> in_range c 0x80 0xBF \<and> utf8_valid s2
         | _ \<Rightarrow> False"
        by (simp add: Let_def)
      with True three show ?thesis
        by (auto split: list.splits)
    next
      case False
      with assms not_ascii not_two have lead: "0xF0 \<le> (of_char a :: nat) \<and> (of_char a :: nat) \<le> 0xF4"
        by (simp add: Let_def split: if_splits)
      with assms not_ascii not_two False have
        "case s of
           b # c # d # s3 \<Rightarrow>
             in_range b (if (of_char a :: nat) = 0xF0 then 0x90 else 0x80)
               (if (of_char a :: nat) = 0xF4 then 0x8F else 0xBF)
             \<and> in_range c 0x80 0xBF \<and> in_range d 0x80 0xBF \<and> utf8_valid s3
         | _ \<Rightarrow> False"
        by (simp add: Let_def)
      with lead four show ?thesis
        by (auto split: list.splits)
    qed
  qed
qed

lemma utf8_decode_valid:
  "utf8_valid s \<Longrightarrow> utf8_decode utf8_initial (s @ t) = s @ utf8_decode utf8_initial t"
proof (induction "length s" arbitrary: s rule: less_induct)
  case less
  show ?case
  proof (cases s)
    case Nil
    then show ?thesis by simp
  next
    case (Cons a s')
    with less.prems have "utf8_valid (a # s')" by simp
    then show ?thesis
    proof (cases rule: utf8_valid_cases)
      case one
      then show ?thesis
        using less.hyps [of s'] Cons by (simp add: utf8_decode_one del: utf8_decode.simps)
    next
      case (two b s1)
      then show ?thesis
        using less.hyps [of s1] Cons by (simp add: utf8_decode_two del: utf8_decode.simps)
    next
      case (three b c s2)
      then show ?thesis
        using less.hyps [of s2] Cons by (simp add: utf8_decode_three del: utf8_decode.simps)
    next
      case (four b c d s3)
      then show ?thesis
        using less.hyps [of s3] Cons by (simp add: utf8_decode_four del: utf8_decode.simps)
    qed
  qed
qed

lemma utf8_round_trip:
  "utf8_valid s \<Longrightarrow> Buffer_toString_utf8 (Buffer_from_utf8 s) = s"
  using utf8_decode_valid [of s "[]"]
  by (simp add: Buffer_toString_utf8_def Buffer_from_utf8_def utf8_initial_def)

lemma utf8_valid_append:
  "utf8_valid s \<Longrightarrow> utf8_valid t \<Longrightarrow> utf8_valid (s @ t)"
proof (induction "length s" arbitrary: s rule: less_induct)
  case less
  show ?case
  proof (cases s)
    case Nil
    with less.prems show ?thesis by simp
  next
    case (Cons a s')
    with less.prems have "utf8_valid (a # s')" by simp
    then show ?thesis
    proof (cases rule: utf8_valid_cases)
      case one
      then show ?thesis
        using less.hyps [of s'] less.prems(2) Cons by simp
    next
      case (two b s1)
      then show ?thesis
        using less.hyps [of s1] less.prems(2) Cons by (simp add: Let_def)
    next
      case (three b c s2)
      then show ?thesis
        using less.hyps [of s2] less.prems(2) Cons by (simp add: Let_def)
    next
      case (four b c d s3)
      then show ?thesis
        using less.hyps [of s3] less.prems(2) Cons by (simp add: Let_def)
    qed
  qed
qed

lemma utf8_valid_ascii:
  "list_all (\<lambda>c. (of_char c :: nat) < 0x80) s \<Longrightarrow> utf8_valid s"
  by (induction s) simp_all


subsection \<open>JSON: strings\<close>

lemma hex_value_hex_digit: "n < 16 \<Longrightarrow> hex_value (hex_digit n) = Some n"
  by (auto simp add: hex_value_def hex_digit_def Let_def)

lemma hex4_control:
  assumes "x < 0x20"
  shows "hex4 [CHR ''0'', CHR ''0'', hex_digit (x div 16), hex_digit (x mod 16)] = Some x"
proof -
  have "x div 16 < 16" "x mod 16 < 16"
    using assms by (simp_all add: less_mult_imp_div_less)
  moreover have "hex_value CHR ''0'' = Some 0"
    by (simp add: hex_value_def)
  ultimately show ?thesis
    by (simp add: hex4_def hex_value_hex_digit)
qed

lemma char_of_of_char_nat: "(of_char c :: nat) = n \<Longrightarrow> c = char_of n"
  by (metis char_of_char)

lemma parse_string_body_quote_char:
  assumes "parse_string_body r = Some (str, rest)"
  shows "parse_string_body (quote_char c @ r) = Some (c # str, rest)"
proof -
  let ?x = "of_char c :: nat"
  consider (quote) "c = CHR 0x22" | (backslash) "c = CHR 0x5C"
    | (short) "?x = 8 \<or> ?x = 12 \<or> ?x = 10 \<or> ?x = 13 \<or> ?x = 9"
    | (control) "?x < 0x20" "?x \<noteq> 8" "?x \<noteq> 12" "?x \<noteq> 10" "?x \<noteq> 13" "?x \<noteq> 9"
    | (plain) "c \<noteq> CHR 0x22" "c \<noteq> CHR 0x5C" "\<not> ?x < 0x20"
    by fastforce
  then show ?thesis
  proof cases
    case quote
    then show ?thesis
      using assms by (simp add: quote_char_def simple_escape_def)
  next
    case backslash
    then show ?thesis
      using assms by (simp add: quote_char_def simple_escape_def)
  next
    case short
    then have "c \<noteq> CHR 0x22" "c \<noteq> CHR 0x5C"
      by auto
    moreover from short have "c = char_of ?x"
      by simp
    ultimately show ?thesis
      using assms short
      by (auto simp add: quote_char_def simple_escape_def Let_def dest: char_of_of_char_nat)
  next
    case control
    then have not_special: "c \<noteq> CHR 0x22" "c \<noteq> CHR 0x5C"
      by auto
    have escape: "quote_char c
                    = [CHR 0x5C, CHR ''u'', CHR ''0'', CHR ''0'',
                       hex_digit (?x div 16), hex_digit (?x mod 16)]"
      using control not_special by (simp add: quote_char_def Let_def)
    have "code_unit_bytes ?x = [c]"
      using control by (simp add: code_unit_bytes_def utf8_encode_def)
    then show ?thesis
      using assms control by (simp add: escape hex4_control)
  next
    case plain
    then show ?thesis
      using assms by (simp add: quote_char_def Let_def)
  qed
qed

lemma parse_string_body_quoted:
  "parse_string_body (concat (map quote_char s) @ CHR 0x22 # rest) = Some (s, rest)"
  by (induction s) (simp_all add: parse_string_body_quote_char del: parse_string_body.simps
        add: parse_string_body.simps(1) parse_string_body.simps(2) [of "CHR 0x22"])


subsection \<open>JSON: integers\<close>

lemma is_digit_digit_char: "n < 10 \<Longrightarrow> is_digit (digit_char n)"
  by (simp add: is_digit_def digit_char_def)

lemma digit_char_value: "n < 10 \<Longrightarrow> (of_char (digit_char n) :: nat) - 48 = n"
  by (simp add: digit_char_def)

lemma show_nat_digits: "list_all is_digit (show_nat n)"
proof (induction n rule: show_nat.induct)
  case (1 n)
  then show ?case
    by (subst show_nat.simps) (simp add: is_digit_digit_char)
qed

lemma show_nat_not_empty: "show_nat n \<noteq> []"
  by (subst show_nat.simps) simp

lemma read_nat_snoc: "read_nat (ds @ [d]) = read_nat ds * 10 + (of_char d - 48)"
  by (simp add: read_nat_def)

lemma read_nat_show_nat: "read_nat (show_nat n) = n"
proof (induction n rule: show_nat.induct)
  case (1 n)
  show ?case
  proof (cases "n < 10")
    case True
    then show ?thesis
      by (subst show_nat.simps) (simp add: read_nat_def digit_char_value)
  next
    case False
    then have "read_nat (show_nat n) = read_nat (show_nat (n div 10)) * 10 + n mod 10"
      by (subst show_nat.simps) (simp add: read_nat_snoc digit_char_value)
    with False 1 show ?thesis by simp
  qed
qed

lemma show_nat_leading_digit: "0 < n \<Longrightarrow> hd (show_nat n) \<noteq> CHR ''0''"
proof (induction n rule: show_nat.induct)
  case (1 n)
  show ?case
  proof (cases "n < 10")
    case True
    with 1(2) have "(of_char (digit_char n) :: nat) \<noteq> 48"
      by (simp add: digit_char_def)
    then have "digit_char n \<noteq> CHR ''0''"
      by auto
    with True show ?thesis
      by (subst show_nat.simps) simp
  next
    case False
    then have "0 < n div 10" by simp
    with False 1(1) have "hd (show_nat (n div 10)) \<noteq> CHR ''0''" by simp
    with False show ?thesis
      by (subst show_nat.simps) (simp add: show_nat_not_empty)
  qed
qed

lemma show_nat_no_leading_zero: "1 < length (show_nat n) \<Longrightarrow> hd (show_nat n) \<noteq> CHR ''0''"
proof (rule show_nat_leading_digit)
  assume "1 < length (show_nat n)"
  then show "0 < n"
    by (cases "n = 0") (simp_all add: show_nat.simps [of 0])
qed

lemma takeWhile_digits:
  assumes "list_all is_digit ds" and "\<not> is_digit d"
  shows "takeWhile is_digit (ds @ d # r) = ds" and "dropWhile is_digit (ds @ d # r) = d # r"
  using assms by (induction ds) simp_all

text \<open>What may follow a value inside an object: the comma or the closing brace.\<close>

lemma delimiter_facts:
  assumes "d = CHR '','' \<or> d = CHR ''}''"
  shows "\<not> is_digit d" "\<not> is_ws d" "[d] \<noteq> ''.''" "[d] \<noteq> ''e''" "[d] \<noteq> ''E''"
  using assms by (auto simp add: is_digit_def is_ws_def)

lemma parse_number_show_nat:
  assumes "d = CHR '','' \<or> d = CHR ''}''"
  shows "parse_number (show_nat n @ d # r) = Some (JNum (int n), d # r)"
proof -
  have first: "is_digit (hd (show_nat n))"
    using show_nat_digits [of n] show_nat_not_empty [of n]
    by (cases "show_nat n") simp_all
  then have "hd (show_nat n) \<noteq> CHR ''-''"
    by (auto simp add: is_digit_def)
  then have not_negative: "take 1 (show_nat n @ d # r) \<noteq> ''-''"
    using show_nat_not_empty [of n] by (cases "show_nat n") simp_all
  show ?thesis
    using not_negative show_nat_no_leading_zero [of n] delimiter_facts [OF assms]
    by (simp add: parse_number_def Let_def takeWhile_digits [OF show_nat_digits]
          show_nat_not_empty read_nat_show_nat)
qed

lemma parse_number_show_int:
  assumes "d = CHR '','' \<or> d = CHR ''}''"
  shows "parse_number (show_int i @ d # r) = Some (JNum i, d # r)"
proof (cases "i < 0")
  case False
  then show ?thesis
    using parse_number_show_nat [OF assms, of "nat i" r] by (simp add: show_int_def)
next
  case True
  have "parse_number (CHR ''-'' # show_nat (nat (- i)) @ d # r) = Some (JNum i, d # r)"
    using True show_nat_no_leading_zero [of "nat (- i)"] delimiter_facts [OF assms]
    by (simp add: parse_number_def Let_def takeWhile_digits [OF show_nat_digits]
          show_nat_not_empty read_nat_show_nat)
  with True show ?thesis
    by (simp add: show_int_def)
qed


subsection \<open>JSON: a key is read back as written\<close>

lemma skip_ws_no_space: "\<not> is_ws c \<Longrightarrow> skip_ws (c # s) = c # s"
  by (simp add: skip_ws_def)

lemma show_int_first:
  "\<exists>c s. show_int i = c # s \<and> (c = CHR ''-'' \<or> is_digit c)"
proof -
  obtain c s where digits: "show_nat (nat \<bar>i\<bar>) = c # s"
    using show_nat_not_empty by (cases "show_nat (nat \<bar>i\<bar>)") auto
  with show_nat_digits [of "nat \<bar>i\<bar>"] have "is_digit c" by simp
  with digits show ?thesis
    by (cases "i < 0") (simp_all add: show_int_def abs_if)
qed

lemma is_digit_facts:
  assumes "c = CHR ''-'' \<or> is_digit c"
  shows "\<not> is_ws c" "c \<noteq> CHR ''[''" "c \<noteq> CHR ''{''" "c \<noteq> CHR 0x22"
  using assms by (auto simp add: is_digit_def is_ws_def)

lemma parse_value_scalar:
  assumes "representable_value v" and "d = CHR '','' \<or> d = CHR ''}''"
  shows "parse_value (Suc n) (stringify_value v @ d # r) = Some (v, d # r)"
proof (cases v)
  case JNull
  then show ?thesis
    by (simp add: skip_ws_def is_ws_def parse_scalar_def parse_literal_def is_digit_def)
next
  case (JBool b)
  then show ?thesis
    by (cases b)
       (simp_all add: skip_ws_def is_ws_def parse_scalar_def parse_literal_def is_digit_def)
next
  case (JNum i)
  obtain c s where first: "show_int i = c # s" "c = CHR ''-'' \<or> is_digit c"
    using show_int_first by blast
  have "parse_value (Suc n) (show_int i @ d # r) = parse_number (show_int i @ d # r)"
    using first is_digit_facts [OF first(2)]
    by (auto simp add: skip_ws_no_space parse_scalar_def)
  with JNum show ?thesis
    by (simp add: parse_number_show_int [OF assms(2)])
next
  case (JStr str)
  have "parse_value (Suc n) (quote str @ d # r)
          = (case parse_string_body (concat (map quote_char str) @ CHR 0x22 # d # r) of
               None \<Rightarrow> None
             | Some (s', rest') \<Rightarrow> Some (JStr s', rest'))"
    by (simp add: quote_def skip_ws_def is_ws_def parse_scalar_def)
  with JStr show ?thesis
    by (simp add: parse_string_body_quoted)
qed (use assms in simp_all)

lemma set_member_new: "k \<notin> fst ` set acc \<Longrightarrow> set_member acc k v = acc @ [(k, v)]"
  by (induction acc) auto

text \<open>The text of one property, as \<open>stringify_value\<close> writes it.\<close>

lemma parse_members_step:
  assumes "representable_value v" and "d = CHR '','' \<or> d = CHR ''}''"
    and "k \<notin> fst ` set acc"
  shows "parse_members (Suc (Suc n)) acc (quote k @ CHR '':'' # stringify_value v @ d # r)
           = (if d = CHR '','' then parse_members (Suc n) (acc @ [(k, v)]) r
              else Some (JObj (acc @ [(k, v)]), r))"
proof -
  have colon: "skip_ws (CHR '':'' # stringify_value v @ d # r)
                 = CHR '':'' # stringify_value v @ d # r"
    by (simp add: skip_ws_def is_ws_def)
  have "parse_members (Suc (Suc n)) acc (quote k @ CHR '':'' # stringify_value v @ d # r)
          = (case skip_ws (d # r) of
               [] \<Rightarrow> None
             | c # s5 \<Rightarrow>
                 if c = CHR '','' then parse_members (Suc n) (set_member acc k v) s5
                 else if c = CHR ''}'' then Some (JObj (set_member acc k v), s5)
                 else None)"
    by (simp add: quote_def skip_ws_no_space is_ws_def parse_string_body_quoted colon
          parse_value_scalar [OF assms(1,2)] del: parse_value.simps)
  then show ?thesis
    using assms(2,3) delimiter_facts(2) [OF assms(2)]
    by (auto simp add: skip_ws_no_space set_member_new)
qed

lemma parse_members_written:
  assumes "kvs \<noteq> []"
    and "distinct (map fst kvs)"
    and "fst ` set kvs \<inter> fst ` set acc = {}"
    and "list_all (\<lambda>(name, v). utf8_valid name \<and> representable_value v) kvs"
  shows "parse_members (Suc (length kvs + n)) acc
           (join_commas (map (\<lambda>(k, v). quote k @ CHR '':'' # stringify_value v) kvs)
            @ CHR ''}'' # rest)
         = Some (JObj (acc @ kvs), rest)"
  using assms
proof (induction kvs arbitrary: acc rule: list_nonempty_induct)
  case (single kv)
  obtain k v where kv: "kv = (k, v)" by (cases kv)
  with single have "representable_value v" "k \<notin> fst ` set acc"
    by auto
  then show ?case
    using parse_members_step [of v "CHR ''}''" k acc n rest]
    by (simp add: kv del: parse_members.simps)
next
  case (cons kv kvs)
  obtain k v where kv: "kv = (k, v)" by (cases kv)
  with cons.prems have here: "representable_value v" "k \<notin> fst ` set acc"
    by auto
  obtain kv' zs where second: "kvs = kv' # zs"
    using cons.hyps by (cases kvs) auto
  have disjoint: "fst ` set kvs \<inter> fst ` set (acc @ [(k, v)]) = {}"
    using cons.prems kv by auto
  have others: "distinct (map fst kvs)"
    "list_all (\<lambda>(name, v). utf8_valid name \<and> representable_value v) kvs"
    using cons.prems by simp_all
  have rest_read:
    "parse_members (Suc (length kvs + n)) (acc @ [(k, v)])
       (join_commas (map (\<lambda>(k, v). quote k @ CHR '':'' # stringify_value v) kvs)
        @ CHR ''}'' # rest)
     = Some (JObj ((acc @ [(k, v)]) @ kvs), rest)"
    by (rule cons.IH [OF others(1) disjoint others(2)])
  have "parse_members (Suc (length (kv # kvs) + n)) acc
          (join_commas (map (\<lambda>(k, v). quote k @ CHR '':'' # stringify_value v) (kv # kvs))
           @ CHR ''}'' # rest)
        = parse_members (Suc (Suc (length kvs + n))) acc
            (quote k @ CHR '':'' # stringify_value v @ CHR '','' #
             (join_commas (map (\<lambda>(k, v). quote k @ CHR '':'' # stringify_value v) kvs)
              @ CHR ''}'' # rest))"
    by (simp add: kv second)
  also have "\<dots> = parse_members (Suc (length kvs + n)) (acc @ [(k, v)])
                     (join_commas (map (\<lambda>(k, v). quote k @ CHR '':'' # stringify_value v) kvs)
                      @ CHR ''}'' # rest)"
    using parse_members_step [OF here(1) _ here(2), of "CHR '',''" "length kvs + n"]
    by simp
  finally show ?case
    using rest_read by (simp add: kv)
qed


lemma join_commas_length:
  "list_all (\<lambda>x. x \<noteq> []) xs \<Longrightarrow> length xs \<le> length (join_commas xs)"
  by (induction xs rule: join_commas.induct) (auto simp add: Suc_le_eq)

lemma quote_first: "quote k = CHR 0x22 # concat (map quote_char k) @ [CHR 0x22]"
  by (simp add: quote_def)

lemma representable_not_undefined: "representable_value v \<Longrightarrow> v \<noteq> JUndefined"
  by auto

lemma JSON_parse_key:
  assumes "distinct (map fst kvs)"
    and "list_all (\<lambda>(name, v). utf8_valid name \<and> representable_value v) kvs"
  shows "JSON_parse (stringify_value (JObj kvs)) = Some (JObj kvs)"
proof (cases kvs)
  case Nil
  then show ?thesis
    by (simp add: JSON_parse_def skip_ws_def is_ws_def)
next
  case (Cons kv zs)
  let ?member = "\<lambda>(k, v). quote k @ CHR '':'' # stringify_value v"
  let ?members = "join_commas (map ?member kvs)"
  obtain k v where kv: "kv = (k, v)" by (cases kv)
  have keep: "filter (\<lambda>(k, v). v \<noteq> JUndefined) kvs = kvs"
    using assms(2) by (induction kvs) (auto dest: representable_not_undefined)
  have written: "stringify_value (JObj kvs) = CHR ''{'' # ?members @ [CHR ''}'']"
    by (simp add: keep)
  have "list_all (\<lambda>x. x \<noteq> []) (map ?member kvs)"
    by (induction kvs) (auto simp add: quote_def)
  then have "length kvs \<le> length ?members"
    using join_commas_length [of "map ?member kvs"] by simp
  then obtain n where fuel: "length (stringify_value (JObj kvs)) = Suc (length kvs + n)"
    unfolding written by (metis add_Suc_right le_Suc_ex length_Cons length_append_singleton)
  obtain tail where first: "?members @ [CHR ''}''] = CHR 0x22 # tail"
    by (cases zs) (simp_all add: Cons kv quote_def)
  have not_ws: "\<not> is_ws (CHR 0x22)" "\<not> is_ws (CHR ''{'')"
    by (simp_all add: is_ws_def)
  have "parse_value (Suc (length (stringify_value (JObj kvs)))) (stringify_value (JObj kvs))
          = parse_members (length (stringify_value (JObj kvs))) [] (?members @ [CHR ''}''])"
    unfolding written
    by (simp add: skip_ws_no_space not_ws first del: parse_members.simps)
  also have "\<dots> = parse_members (Suc (length kvs + n)) [] (?members @ [CHR ''}''])"
    by (simp only: fuel)
  also have "\<dots> = Some (JObj ([] @ kvs), [])"
    using Cons assms by (intro parse_members_written) simp_all
  finally show ?thesis
    by (simp add: JSON_parse_def skip_ws_def)
qed

subsection \<open>The text of a key is well-formed UTF-8\<close>

lemma utf8_valid_Cons_ascii: "(of_char c :: nat) < 0x80 \<Longrightarrow> utf8_valid (c # s) = utf8_valid s"
  by simp

lemma hex_digit_ascii: "n < 16 \<Longrightarrow> (of_char (hex_digit n) :: nat) < 0x80"
  by (simp add: hex_digit_def)

lemma quote_char_ascii:
  assumes "(of_char c :: nat) < 0x80"
  shows "list_all (\<lambda>c. (of_char c :: nat) < 0x80) (quote_char c)"
proof -
  have "(of_char c :: nat) mod 16 < 16" by simp
  moreover have "(of_char c :: nat) < 0x20 \<Longrightarrow> (of_char c :: nat) div 16 < 16"
    by (simp add: less_mult_imp_div_less)
  ultimately show ?thesis
    using assms by (simp add: quote_char_def hex_digit_ascii Let_def)
qed

lemma quote_char_high: "0x80 \<le> (of_char c :: nat) \<Longrightarrow> quote_char c = [c]"
  by (auto simp add: quote_char_def Let_def)

lemma in_range_high: "in_range b lower upper \<Longrightarrow> 0x80 \<le> lower \<Longrightarrow> 0x80 \<le> (of_char b :: nat)"
  by (simp add: in_range_def)

lemma utf8_valid_quoted_chars:
  "utf8_valid s \<Longrightarrow> utf8_valid (concat (map quote_char s))"
proof (induction "length s" arbitrary: s rule: less_induct)
  case less
  show ?case
  proof (cases s)
    case Nil
    then show ?thesis by simp
  next
    case (Cons a s')
    with less.prems have "utf8_valid (a # s')" by simp
    then show ?thesis
    proof (cases rule: utf8_valid_cases)
      case one
      then have "utf8_valid (quote_char a)" "utf8_valid (concat (map quote_char s'))"
        using less.hyps [of s'] Cons by (simp_all add: utf8_valid_ascii quote_char_ascii)
      then show ?thesis
        using Cons by (simp add: utf8_valid_append)
    next
      case (two b s1)
      then have high: "quote_char a = [a]" "quote_char b = [b]"
        by (simp_all add: quote_char_high in_range_high)
      have "utf8_valid (concat (map quote_char s1))"
        using less.hyps [of s1] two Cons by simp
      with two show ?thesis
        using Cons by (simp add: high Let_def)
    next
      case (three b c s2)
      then have high: "quote_char a = [a]" "quote_char b = [b]" "quote_char c = [c]"
        by (simp_all add: quote_char_high in_range_def split: if_splits)
      have "utf8_valid (concat (map quote_char s2))"
        using less.hyps [of s2] three Cons by simp
      with three show ?thesis
        using Cons by (simp add: high Let_def)
    next
      case (four b c d s3)
      then have high: "quote_char a = [a]" "quote_char b = [b]" "quote_char c = [c]"
        "quote_char d = [d]"
        by (simp_all add: quote_char_high in_range_def split: if_splits)
      have "utf8_valid (concat (map quote_char s3))"
        using less.hyps [of s3] four Cons by simp
      with four show ?thesis
        using Cons by (simp add: high Let_def)
    qed
  qed
qed

lemma utf8_valid_quote: "utf8_valid s \<Longrightarrow> utf8_valid (quote s)"
proof -
  assume "utf8_valid s"
  then have "utf8_valid (concat (map quote_char s))"
    by (rule utf8_valid_quoted_chars)
  moreover have "utf8_valid [CHR 0x22]" by simp
  ultimately have "utf8_valid (concat (map quote_char s) @ [CHR 0x22])"
    by (rule utf8_valid_append)
  then show ?thesis
    by (simp add: quote_def)
qed

lemma utf8_valid_show_int: "utf8_valid (show_int i)"
proof -
  have "list_all (\<lambda>c. (of_char c :: nat) < 0x80) (show_nat n)" for n
    using show_nat_digits [of n] by (induction "show_nat n") (auto simp add: is_digit_def list_all_iff)
  then show ?thesis
    by (simp add: show_int_def utf8_valid_ascii)
qed

lemma utf8_valid_value: "representable_value v \<Longrightarrow> utf8_valid (stringify_value v)"
  by (cases v) (simp_all add: utf8_valid_quote utf8_valid_show_int)

lemma utf8_valid_join_commas: "list_all utf8_valid xs \<Longrightarrow> utf8_valid (join_commas xs)"
proof (induction xs rule: join_commas.induct)
  case (3 x y zs)
  then have "utf8_valid x" "utf8_valid (CHR '','' # join_commas (y # zs))"
    by simp_all
  then show ?case
    using utf8_valid_append [of x "CHR '','' # join_commas (y # zs)"] by simp
qed simp_all

lemma utf8_valid_key:
  assumes "list_all (\<lambda>(name, v). utf8_valid name \<and> representable_value v) kvs"
  shows "utf8_valid (stringify_value (JObj kvs))"
proof -
  let ?member = "\<lambda>(k, v). quote k @ CHR '':'' # stringify_value v"
  have keep: "filter (\<lambda>(k, v). v \<noteq> JUndefined) kvs = kvs"
    using assms by (induction kvs) (auto dest: representable_not_undefined)
  have "utf8_valid (?member kv)" if "kv \<in> set kvs" for kv
  proof -
    obtain k v where kv: "kv = (k, v)" by (cases kv)
    with that assms have "utf8_valid k" "representable_value v"
      by (auto simp add: list_all_iff)
    then have "utf8_valid (quote k)" "utf8_valid (CHR '':'' # stringify_value v)"
      by (simp_all add: utf8_valid_quote utf8_valid_value)
    then show ?thesis
      unfolding kv by (simp add: utf8_valid_append)
  qed
  then have "list_all utf8_valid (map ?member kvs)"
    by (simp add: list_all_iff)
  then have "utf8_valid (join_commas (map ?member kvs))"
    by (rule utf8_valid_join_commas)
  moreover have "utf8_valid [CHR ''}'']" by simp
  ultimately have "utf8_valid (join_commas (map ?member kvs) @ [CHR ''}''])"
    by (rule utf8_valid_append)
  then show ?thesis
    by (simp add: keep)
qed

section \<open>Properties of the cursor codec\<close>

text \<open>
  C3. For every partial key that a cursor can carry (\<open>representable_key\<close>: distinct
  names, values that are strings, safe integers, booleans or null), encoding succeeds
  and decoding the cursor gives the very same key back: the same names in the same
  order, and every value with the type and the value it had.
\<close>

theorem C3_cursor_round_trip:
  assumes "representable_key k"
  shows "\<exists>cursor. encodeCursor k = Inr cursor \<and> decodeCursor cursor = Inr k"
proof -
  from assms obtain kvs where k: "k = JObj kvs"
    and names: "distinct (map fst kvs)"
    and entries: "list_all (\<lambda>(name, v). utf8_valid name \<and> representable_value v) kvs"
    by (auto simp add: representable_key_def split: jsval.splits)
  let ?text = "stringify_value k"
  have encoded: "encodeCursor k = Inr (Buffer_toString_base64 (Buffer_from_utf8 ?text))"
    by (simp add: encodeCursor_def JSON_stringify_def k)
  have "Buffer_toString_utf8
          (Buffer_from_base64 (Buffer_toString_base64 (Buffer_from_utf8 ?text))) = ?text"
    using utf8_valid_key [OF entries] by (simp only: base64_round_trip utf8_round_trip k)
  moreover have "JSON_parse ?text = Some k"
    unfolding k using names entries by (rule JSON_parse_key)
  ultimately have "decodeCursor (Buffer_toString_base64 (Buffer_from_utf8 ?text)) = Inr k"
    by (simp add: decodeCursor_def)
  with encoded show ?thesis by blast
qed

theorem C3_cursor_round_trip_witness:
  "representable_key sample_key
   \<and> encodeCursor sample_key = Inr ''eyJ1c2VySWQiOiJ1MSIsIm9yZGVySWQiOjV9''
   \<and> decodeCursor ''eyJ1c2VySWQiOiJ1MSIsIm9yZGVySWQiOjV9'' = Inr sample_key"
proof -
  have representable: "representable_key sample_key"
    by code_simp
  have encoded: "encodeCursor sample_key = Inr ''eyJ1c2VySWQiOiJ1MSIsIm9yZGVySWQiOjV9''"
    by code_simp
  from C3_cursor_round_trip [OF representable] encoded
  have "decodeCursor ''eyJ1c2VySWQiOiJ1MSIsIm9yZGVySWQiOjV9'' = Inr sample_key"
    by auto
  with representable encoded show ?thesis by simp
qed

text \<open>
  Outside the representable keys the round trip can fail: a property whose value is
  \<open>undefined\<close> is not written, so it is gone after decoding.
\<close>

lemma undefined_property_is_lost:
  "encodeCursor (JObj [(''userId'', JUndefined)]) = Inr ''e30=''
   \<and> decodeCursor ''e30='' = Inr (JObj [])"
  by code_simp

text \<open>
  The part of the decoding contract that does hold: when the bytes that the lenient
  base64 decoder extracts are not the text of one JSON value, the error is thrown.
\<close>

lemma decodeCursor_rejects_bad_json:
  "JSON_parse (Buffer_toString_utf8 (Buffer_from_base64 cursor)) = None
     \<Longrightarrow> decodeCursor cursor = Inl DecodeCursorFailed"
  by (simp add: decodeCursor_def)

lemma decodeCursor_rejects_abc: "decodeCursor ''abc'' = Inl DecodeCursorFailed"
  by code_simp

text \<open>
  C9 (defect). \<open>e30=\<close> is the cursor of the empty key \<open>{}\<close>. With a character from
  outside the base64 alphabet put in (\<open>e3$0=\<close>), with a blank put in, or with its
  padding cut off, the string is no base64 encoding any more, and \<open>decodeCursor\<close> still
  returns the empty key without an error. Resuming a scan from that key
  (\<open>startWith({})\<close>) sets the start boundary to the minimum of every column: the scan
  starts again from the first row.
\<close>

theorem C9_malformed_cursor_is_accepted:
  "decodeCursor ''e3$0='' = Inr (JObj [])
   \<and> decodeCursor ''e3 0='' = Inr (JObj [])
   \<and> decodeCursor ''e30'' = Inr (JObj [])
   \<and> qb_startPrimaryKey (startWith [] sample_builder)
       = Some [(''userId'', INF_MIN), (''orderId'', INF_MIN)]"
  by code_simp


end
